theory Spec2Isabelle
  imports Main "HOL-Library.List_Lexorder" "HOL-Library.Word"
begin

section \<open>The DKG dealer (consensus/dkg\_dealer.go)\<close>

subsection \<open>Data\<close>

text \<open>
  Byte slices are lists of byte values; an address is a byte slice, ordered as its
  hexadecimal rendering is (lexicographically).  Curve points and scalars come from the
  kyber library and are opaque to the dealer: they are naturals here.  Go's \<open>int\<close> is
  modelled by \<open>int\<close>: every integer the dealer computes is a slice length, a small
  multiple of one, or an index.  An \<open>error\<close> is its message; \<open>nil\<close> is \<open>None\<close>.
\<close>

type_synonym bytes = "nat list"
type_synonym address = bytes
type_synonym point = nat
type_synonym scalar = nat
type_synonym error = string

text \<open>A Go function that panics returns no value: the panic carries its message.\<close>

datatype 'a outcome = Return 'a | Panic string

datatype DKGDataType =
  DKGPubKey | DKGDeal | DKGResponse | DKGJustification | DKGCommits | DKGComplaint
  | DKGReconstructCommit

record DKGData =
  Type :: DKGDataType
  RoundID :: int
  Addr :: bytes
  Data :: "bytes option"
  ToIndex :: int
  NumEntities :: int

text \<open>The zero value of the message struct, as a composite literal starts from.\<close>

definition DKGData0 :: "DKGDataType \<Rightarrow> int \<Rightarrow> bytes \<Rightarrow> DKGData" where
  "DKGData0 ty rid a =
     \<lparr>Type = ty, RoundID = rid, Addr = a, Data = None, ToIndex = 0, NumEntities = 0\<rparr>"

datatype DKGEvent =
  EventDKGPubKeyReceived | EventDKGDealsProcessed | EventDKGResponsesProcessed
  | EventDKGJustificationsProcessed | EventDKGInstanceCertified | EventDKGCommitsProcessed
  | EventDKGComplaintProcessed | EventDKGReconstructCommitsProcessed

record Validator =
  Address :: address
  VotingPower :: int

type_synonym ValidatorSet = "Validator list"

definition Size :: "ValidatorSet \<Rightarrow> int" where
  "Size vs = int (length vs)"

fun GetByAddress :: "ValidatorSet \<Rightarrow> address \<Rightarrow> Validator option" where
  "GetByAddress [] a = None"
| "GetByAddress (v # vs) a = (if Address v = a then Some v else GetByAddress vs a)"

record PK2Addr =
  pk_Addr :: address
  PK :: point

type_synonym PKStore = "PK2Addr list"

definition GetPKs :: "PKStore \<Rightarrow> point list" where
  "GetPKs s = map PK s"

record Deal =
  deal_Index :: int
  deal_payload :: bytes

record Response =
  resp_Index :: int
  Response_Index :: int
  Approved :: bool

record Justification =
  just_Index :: int
  just_payload :: bytes

record SecretCommits =
  sc_Index :: int
  Commitments :: "point list"

record ComplaintCommits =
  cc_Index :: int
  Deal_Commitments :: "point list"

record ReconstructCommits =
  rc_Index :: int
  rc_payload :: bytes

record DistKeyShare =
  dks_Commitments :: "point list"
  PriShare :: scalar

record BLSShare =
  ID :: int
  Pub :: "int \<times> point option"
  Priv :: scalar

record BLSVerifier =
  masterPubKey :: "point list"
  share :: BLSShare
  bls_t :: int
  bls_n :: int

text \<open>
  The kyber DKG instance behind \<open>d.instance\<close> and the gob encoder are libraries outside
  the repository.  The dealer is modelled over any instance type \<open>'i\<close> and any behaviour
  of these operations; an operation that mutates the instance returns the new one.  The
  two maps the library hands out are association lists in the order a \<open>range\<close> visits
  them.
\<close>

record 'i dkglib =
  NewDistKeyGenerator :: "scalar option \<Rightarrow> point list \<Rightarrow> int \<Rightarrow> error + 'i"
  Deals :: "'i \<Rightarrow> (error + (int \<times> Deal) list) \<times> 'i"
  ProcessDeal :: "'i \<Rightarrow> Deal \<Rightarrow> (error + Response) \<times> 'i"
  ProcessResponse :: "'i \<Rightarrow> Response \<Rightarrow> (error + Justification option) \<times> 'i"
  Certified :: "'i \<Rightarrow> bool"
  Finished :: "'i \<Rightarrow> bool"
  QUAL :: "'i \<Rightarrow> int list"
  ProcessJustification :: "'i \<Rightarrow> Justification \<Rightarrow> error option \<times> 'i"
  GetSecretCommits :: "'i \<Rightarrow> error + SecretCommits"
  ProcessSecretCommits :: "'i \<Rightarrow> SecretCommits \<Rightarrow> (error + ComplaintCommits option) \<times> 'i"
  ProcessComplaintCommits ::
    "'i \<Rightarrow> ComplaintCommits \<Rightarrow> (error + ReconstructCommits option) \<times> 'i"
  ProcessReconstructCommits_lib :: "'i \<Rightarrow> ReconstructCommits \<Rightarrow> error option \<times> 'i"
  GetDistKeyShare :: "'i \<Rightarrow> error + DistKeyShare"
  encodeDeal :: "Deal \<Rightarrow> error + bytes"
  encodeResponse :: "Response \<Rightarrow> error + bytes"
  encodeJustification :: "Justification \<Rightarrow> error + bytes"
  encodeCommits :: "SecretCommits \<Rightarrow> error + bytes"
  encodeComplaint :: "ComplaintCommits \<Rightarrow> error + bytes"

text \<open>
  The dealer struct.  \<open>'t\<close> is the representation of a transition closure.  A nil slice
  and a nil map are the empty list: the functions modelled here only take their length
  and range over them, which Go allows on nil.  The maps \<open>deals\<close> and
  \<open>justifications\<close> are association lists in iteration order.  The two callbacks are
  modelled by what they were given: \<open>sent\<close> collects the arguments of \<open>sendMsgCb\<close>,
  \<open>fired\<close> those of \<open>eventFirer.FireEvent\<close>; the logger has no effect.
\<close>

record DealerState =
  validators :: ValidatorSet
  addrBytes :: bytes
  participantID :: int
  roundID :: int

record ('i, 't) DKGDealer = DealerState +
  sent :: "DKGData list"
  fired :: "(DKGEvent \<times> int option) list"
  pubKey :: "point option"
  secKey :: "scalar option"
  suiteG1 :: "unit option"
  suiteG2 :: "unit option"
  "instance" :: "'i option"
  transitions :: "'t list"
  pubKeys :: PKStore
  deals :: "(string \<times> Deal) list"
  responses :: "Response list"
  justifications :: "(string \<times> Justification option) list"
  commits :: "SecretCommits list"
  complaints :: "ComplaintCommits option list"
  reconstructCommits :: "ReconstructCommits option list"
  losers :: "address list"

subsection \<open>Operations\<close>

text \<open>
  Error messages: \<open>fmt.Errorf("prefix: %v", err)\<close> is the prefix followed by the text
  of the wrapped error; a formatted number inside a prefix is left out.
\<close>

definition nilDereference :: string where
  "nilDereference = ''invalid memory address or nil pointer dereference''"

definition errDKGVerifierNotReady :: error where
  \<comment> \<open>declared outside the sources at hand; only its identity matters\<close>
  "errDKGVerifierNotReady = ''verifier not ready''"

definition ResetDKGData :: "('i, 't) DKGDealer \<Rightarrow> ('i, 't) DKGDealer" where
  "ResetDKGData d =
     d\<lparr>pubKey := None, secKey := None, suiteG1 := None, suiteG2 := None,
       instance := None, transitions := [],
       pubKeys := [], deals := [], responses := [], justifications := [],
       commits := [], complaints := [], reconstructCommits := []\<rparr>"

definition SetTransitions :: "'t list \<Rightarrow> ('i, 't) DKGDealer \<Rightarrow> ('i, 't) DKGDealer" where
  "SetTransitions ts d = d\<lparr>transitions := ts\<rparr>"

definition GetLosers :: "('i, 't) DKGDealer \<Rightarrow> Validator option list" where
  "GetLosers d = map (GetByAddress (validators d)) (losers d)"

definition SendMsgCb :: "DKGData \<Rightarrow> ('i, 't) DKGDealer \<Rightarrow> ('i, 't) DKGDealer" where
  "SendMsgCb msg d = d\<lparr>sent := sent d @ [msg]\<rparr>"

definition FireEvent :: "DKGEvent \<Rightarrow> int option \<Rightarrow> ('i, 't) DKGDealer \<Rightarrow> ('i, 't) DKGDealer" where
  "FireEvent ev arg d = d\<lparr>fired := fired d @ [(ev, arg)]\<rparr>"

text \<open>
  A transition is a closure \<open>func() (error, bool)\<close> over the dealer: run on a dealer it
  gives an error or nil, the ready flag and the dealer as it left it, or it panics.
  \<open>Transit\<close> is modelled over any meaning \<open>run\<close> of the closures in the queue, since
  \<open>SetTransitions\<close> installs arbitrary ones.  The loop reads \<open>d.transitions\<close> anew after
  each call; slicing an empty slice with \<open>[1:]\<close> panics.  A closure may refill the
  queue, so the loop need not end: not returning is \<open>None\<close>.
\<close>

type_synonym ('i, 't) transition_result =
  "((error option \<times> bool) \<times> ('i, 't) DKGDealer) outcome"

partial_function (option) Transit ::
  "('t \<Rightarrow> ('i, 't) DKGDealer \<Rightarrow> ('i, 't) transition_result) \<Rightarrow> ('i, 't) DKGDealer
     \<Rightarrow> (error option \<times> ('i, 't) DKGDealer) outcome option" where
  "Transit run d =
     (case transitions d of
        [] \<Rightarrow> Some (Return (None, d))
      | tn # _ \<Rightarrow>
          (case run tn d of
             Panic m \<Rightarrow> Some (Panic m)
           | Return ((err, ready), d1) \<Rightarrow>
               if \<not> ready then Some (Return (None, d1))
               else if err \<noteq> None then Some (Return (err, d1))
               else (case transitions d1 of
                       [] \<Rightarrow> Some (Panic ''slice bounds out of range'')
                     | _ # rest \<Rightarrow> Transit run (d1\<lparr>transitions := rest\<rparr>))))"

subsubsection \<open>Phase I: deals\<close>

definition IsReady :: "('i, 't) DKGDealer \<Rightarrow> bool" where
  "IsReady d = (int (length (pubKeys d)) = Size (validators d))"

fun encodeDeals ::
  "'i dkglib \<Rightarrow> int \<Rightarrow> bytes \<Rightarrow> (int \<times> Deal) list \<Rightarrow> DKGData list
     \<Rightarrow> DKGData list \<times> error option" where
  "encodeDeals lib rid a [] msgs = (msgs, None)"
| "encodeDeals lib rid a ((toIndex, deal) # rest) msgs =
     (case encodeDeal lib deal of
        Inl e \<Rightarrow> (msgs, Some (''failed to encode deal: '' @ e))
      | Inr b \<Rightarrow>
          encodeDeals lib rid a rest
            (msgs @ [(DKGData0 DKGDeal rid a)\<lparr>Data := Some b, ToIndex := toIndex\<rparr>]))"

text \<open>
  \<open>sort.Sort(d.pubKeys)\<close> orders the store by address; among entries with one address
  Go's sort promises no order, the model keeps theirs.  The deals are a map, ranged over
  twice; the model visits them in one order both times (every deal carries the same
  \<open>Index\<close>, as the source notes).
\<close>

definition GetDeals ::
  "'i dkglib \<Rightarrow> ('i, 't) DKGDealer \<Rightarrow> (DKGData list \<times> error option) \<times> ('i, 't) DKGDealer" where
  "GetDeals lib d =
     (let d1 = d\<lparr>pubKeys := sort_key pk_Addr (pubKeys d)\<rparr> in
      case NewDistKeyGenerator lib (secKey d1) (GetPKs (pubKeys d1))
             ((Size (validators d1) * 2) div 3) of
        Inl e \<Rightarrow> (([], Some (''failed to create dkgState instance: '' @ e)), d1)
      | Inr dkgInstance \<Rightarrow>
          (case Deals lib dkgInstance of
             (Inl e, i1) \<Rightarrow>
               (([], Some (''failed to populate deals: '' @ e)), d1\<lparr>instance := Some i1\<rparr>)
           | (Inr ds, i1) \<Rightarrow>
               (let d2 = d1\<lparr>instance := Some i1\<rparr>;
                    d3 = (case ds of [] \<Rightarrow> d2
                          | (_, deal) # _ \<Rightarrow> d2\<lparr>participantID := deal_Index deal\<rparr>)
                in (encodeDeals lib (roundID d3) (addrBytes d3) ds [], d3))))"

definition SendDeals :: "'i dkglib \<Rightarrow> ('i, 't) DKGDealer \<Rightarrow> ('i, 't) transition_result" where
  "SendDeals lib d =
     (if \<not> IsReady d then Return ((None, False), d)
      else (let d1 = FireEvent EventDKGPubKeyReceived None d in
            case GetDeals lib d1 of
              ((messages, err), d2) \<Rightarrow> Return ((err, True), fold SendMsgCb messages d2)))"

subsubsection \<open>Phase I: responses\<close>

definition IsDealsReady :: "('i, 't) DKGDealer \<Rightarrow> bool" where
  "IsDealsReady d = (int (length (deals d)) \<ge> Size (validators d) - 1)"

text \<open>
  The loops below call the instance only inside their bodies: on a nil instance they
  panic at the first element, and pass an empty list.
\<close>

fun getResponsesLoop ::
  "'i dkglib \<Rightarrow> int \<Rightarrow> bytes \<Rightarrow> (string \<times> Deal) list \<Rightarrow> 'i option \<Rightarrow> DKGData list
     \<Rightarrow> ((DKGData list \<times> error option) \<times> 'i option) outcome" where
  "getResponsesLoop lib rid a [] inst messages = Return ((messages, None), inst)"
| "getResponsesLoop lib rid a ((_, deal) # rest) None messages = Panic nilDereference"
| "getResponsesLoop lib rid a ((_, deal) # rest) (Some i) messages =
     (case ProcessDeal lib i deal of
        (Inl e, i1) \<Rightarrow> Return ((messages, Some (''failed to ProcessDeal: '' @ e)), Some i1)
      | (Inr resp, i1) \<Rightarrow>
          (case encodeResponse lib resp of
             Inl e \<Rightarrow>
               Return ((messages, Some (''failed to encode response: '' @ e)), Some i1)
           | Inr b \<Rightarrow>
               getResponsesLoop lib rid a rest (Some i1)
                 (messages @ [(DKGData0 DKGResponse rid a)\<lparr>Data := Some b\<rparr>])))"

definition GetResponses ::
  "'i dkglib \<Rightarrow> ('i, 't) DKGDealer
     \<Rightarrow> ((DKGData list \<times> error option) \<times> ('i, 't) DKGDealer) outcome" where
  "GetResponses lib d =
     (case getResponsesLoop lib (roundID d) (addrBytes d) (deals d) (instance d) [] of
        Panic m \<Rightarrow> Panic m
      | Return ((messages, Some e), inst) \<Rightarrow>
          Return ((messages, Some e), d\<lparr>instance := inst\<rparr>)
      | Return ((messages, None), inst) \<Rightarrow>
          Return ((messages, None),
            FireEvent EventDKGDealsProcessed (Some (roundID d)) (d\<lparr>instance := inst\<rparr>)))"

definition ProcessDeals :: "'i dkglib \<Rightarrow> ('i, 't) DKGDealer \<Rightarrow> ('i, 't) transition_result" where
  "ProcessDeals lib d =
     (if \<not> IsDealsReady d then Return ((None, False), d)
      else
        (case GetResponses lib d of
           Panic m \<Rightarrow> Panic m
         | Return ((responseMessages, err), d1) \<Rightarrow>
             Return ((err, True), fold SendMsgCb responseMessages d1)))"

definition IsResponsesReady :: "('i, 't) DKGDealer \<Rightarrow> bool" where
  "IsResponsesReady d =
     (int (length (responses d)) \<ge> (Size (validators d) - 1) * (Size (validators d) - 1))"

definition processResponse :: "'i dkglib \<Rightarrow> 'i \<Rightarrow> Response \<Rightarrow> (error + bytes option) \<times> 'i" where
  "processResponse lib i resp =
     (case ProcessResponse lib i resp of
        (Inl e, i1) \<Rightarrow> (Inl (''failed to ProcessResponse: '' @ e), i1)
      | (Inr None, i1) \<Rightarrow> (Inr None, i1)
      | (Inr (Some justification), i1) \<Rightarrow>
          (case encodeJustification lib justification of
             Inl e \<Rightarrow> (Inl (''failed to encode response: '' @ e), i1)
           | Inr b \<Rightarrow> (Inr (Some b), i1)))"

fun getJustificationsLoop ::
  "'i dkglib \<Rightarrow> int \<Rightarrow> bytes \<Rightarrow> Response list \<Rightarrow> 'i option \<Rightarrow> DKGData list
     \<Rightarrow> ((DKGData list \<times> error option) \<times> 'i option) outcome" where
  "getJustificationsLoop lib rid a [] inst messages = Return ((messages, None), inst)"
| "getJustificationsLoop lib rid a (resp # rest) None messages = Panic nilDereference"
| "getJustificationsLoop lib rid a (resp # rest) (Some i) messages =
     (case processResponse lib i resp of
        (Inl e, i1) \<Rightarrow> Return ((messages, Some e), Some i1)
      | (Inr justificationBytes, i1) \<Rightarrow>
          getJustificationsLoop lib rid a rest (Some i1)
            (messages @ [(DKGData0 DKGJustification rid a)\<lparr>Data := justificationBytes\<rparr>]))"

definition GetJustifications ::
  "'i dkglib \<Rightarrow> ('i, 't) DKGDealer
     \<Rightarrow> ((DKGData list \<times> error option) \<times> ('i, 't) DKGDealer) outcome" where
  "GetJustifications lib d =
     (case getJustificationsLoop lib (roundID d) (addrBytes d) (responses d) (instance d) [] of
        Panic m \<Rightarrow> Panic m
      | Return ((messages, Some e), inst) \<Rightarrow>
          Return ((messages, Some e), d\<lparr>instance := inst\<rparr>)
      | Return ((messages, None), inst) \<Rightarrow>
          Return ((messages, None),
            FireEvent EventDKGResponsesProcessed (Some (roundID d)) (d\<lparr>instance := inst\<rparr>)))"

definition ProcessResponses :: "'i dkglib \<Rightarrow> ('i, 't) DKGDealer \<Rightarrow> ('i, 't) transition_result" where
  "ProcessResponses lib d =
     (if \<not> IsResponsesReady d then Return ((None, False), d)
      else
        (case GetJustifications lib d of
           Panic m \<Rightarrow> Panic m
         | Return ((messages, err), d1) \<Rightarrow> Return ((err, True), fold SendMsgCb messages d1)))"

subsubsection \<open>Phase I: justifications and the QUAL set\<close>

definition IsJustificationsReady :: "('i, 't) DKGDealer \<Rightarrow> bool" where
  "IsJustificationsReady d = (int (length (justifications d)) \<ge> Size (validators d))"

fun processJustifications ::
  "'i dkglib \<Rightarrow> (string \<times> Justification option) list \<Rightarrow> 'i \<Rightarrow> error option \<times> 'i" where
  "processJustifications lib [] i = (None, i)"
| "processJustifications lib ((_, None) # js) i = processJustifications lib js i"
| "processJustifications lib ((_, Some j) # js) i =
     (case ProcessJustification lib i j of
        (Some e, i1) \<Rightarrow> (Some (''failed to ProcessJustification: '' @ e), i1)
      | (None, i1) \<Rightarrow> processJustifications lib js i1)"

text \<open>
  The loop over the public-key store: \<open>qualSet[idx]\<close> is true exactly for the members
  of \<open>qual\<close>; the address at every other index is appended.
\<close>

fun appendLosers :: "int list \<Rightarrow> int \<Rightarrow> PKStore \<Rightarrow> address list \<Rightarrow> address list" where
  "appendLosers qual idx [] ls = ls"
| "appendLosers qual idx (pk2addr # rest) ls =
     appendLosers qual (idx + 1) rest
       (if idx \<in> set qual then ls else ls @ [pk_Addr pk2addr])"

text \<open>
  The body of \<open>GetCommits\<close>, run on the struct it is given.
\<close>

definition GetCommits_body ::
  "'i dkglib \<Rightarrow> ('i, 't) DKGDealer
     \<Rightarrow> ((error + SecretCommits) \<times> ('i, 't) DKGDealer) outcome" where
  "GetCommits_body lib d =
     (case instance d of
        None \<Rightarrow> Panic nilDereference
      | Some i \<Rightarrow>
          (case processJustifications lib (justifications d) i of
             (Some e, i1) \<Rightarrow> Return (Inl e, d\<lparr>instance := Some i1\<rparr>)
           | (None, i1) \<Rightarrow>
               (let d1 = FireEvent EventDKGJustificationsProcessed (Some (roundID d))
                           (d\<lparr>instance := Some i1\<rparr>)
                in if \<not> Certified lib i1 then Return (Inl ''instance is not certified'', d1)
                   else
                     (let d2 = FireEvent EventDKGInstanceCertified (Some (roundID d1)) d1;
                          qual = QUAL lib i1
                      in if int (length qual) < Size (validators d2) then
                           Return (Inl ''some of participants failed to complete phase I'',
                                   d2\<lparr>losers := appendLosers qual 0 (pubKeys d2) (losers d2)\<rparr>)
                         else
                           (case GetSecretCommits lib i1 of
                              Inl e \<Rightarrow> Return (Inl (''failed to get commits: '' @ e), d2)
                            | Inr c \<Rightarrow> Return (Inr c, d2))))))"

text \<open>
  \<open>func (d DKGDealer) GetCommits()\<close> has a value receiver, the only method of the
  dealer that has: the body runs on a copy of the struct.  What the copy shares with
  the caller's dealer is what lies behind pointers and interfaces, the DKG instance and
  the event firer; an assignment to a field of the copy, \<open>d.losers = append(...)\<close>,
  stays in the copy.  The dealer returned here is the caller's.
\<close>

definition GetCommits ::
  "'i dkglib \<Rightarrow> ('i, 't) DKGDealer
     \<Rightarrow> ((error + SecretCommits) \<times> ('i, 't) DKGDealer) outcome" where
  "GetCommits lib d =
     (case GetCommits_body lib d of
        Panic m \<Rightarrow> Panic m
      | Return (r, dcopy) \<Rightarrow> Return (r, d\<lparr>instance := instance dcopy, fired := fired dcopy\<rparr>))"

definition ProcessJustifications ::
  "'i dkglib \<Rightarrow> ('i, 't) DKGDealer \<Rightarrow> ('i, 't) transition_result" where
  "ProcessJustifications lib d =
     (if \<not> IsJustificationsReady d then Return ((None, False), d)
      else
        (case GetCommits lib d of
           Panic m \<Rightarrow> Panic m
         | Return (Inl e, d1) \<Rightarrow> Return ((Some e, True), d1)
         | Return (Inr cs, d1) \<Rightarrow>
             (case encodeCommits lib cs of
                Inl e \<Rightarrow> Return ((Some (''failed to encode response: '' @ e), True), d1)
              | Inr b \<Rightarrow>
                  Return ((None, True),
                    SendMsgCb ((DKGData0 DKGCommits (roundID d1) (addrBytes d1))
                                 \<lparr>Data := Some b, NumEntities := int (length (Commitments cs))\<rparr>)
                      d1))))"

subsubsection \<open>Phase II: commits\<close>

text \<open>
  The loop of \<open>ProcessCommits\<close> over \<open>d.commits\<close>: the flag \<open>alreadyFinished\<close> and the
  messages built so far are its state; an error ends it.
\<close>

fun processCommitsLoop ::
  "'i dkglib \<Rightarrow> int \<Rightarrow> bytes \<Rightarrow> SecretCommits list \<Rightarrow> 'i \<Rightarrow> bool \<Rightarrow> DKGData list
     \<Rightarrow> (error + bool \<times> DKGData list) \<times> 'i" where
  "processCommitsLoop lib rid a [] i alreadyFinished messages =
     (Inr (alreadyFinished, messages), i)"
| "processCommitsLoop lib rid a (c # cs) i alreadyFinished messages =
     (case ProcessSecretCommits lib i c of
        (Inl e, i1) \<Rightarrow> (Inl (''failed to ProcessSecretCommits: '' @ e), i1)
      | (Inr None, i1) \<Rightarrow>
          processCommitsLoop lib rid a cs i1 alreadyFinished
            (messages @ [DKGData0 DKGComplaint rid a])
      | (Inr (Some complaint), i1) \<Rightarrow>
          (case encodeComplaint lib complaint of
             Inl e \<Rightarrow> (Inl (''failed to encode response: '' @ e), i1)
           | Inr b \<Rightarrow>
               processCommitsLoop lib rid a cs i1 False
                 (messages @ [(DKGData0 DKGComplaint rid a)
                    \<lparr>Data := Some b,
                     NumEntities := int (length (Deal_Commitments complaint))\<rparr>])))"

definition ProcessCommits ::
  "'i dkglib \<Rightarrow> ('i, 't) DKGDealer \<Rightarrow> ('i, 't) transition_result" where
  "ProcessCommits lib d =
     (case instance d of
        None \<Rightarrow> Panic nilDereference
      | Some i \<Rightarrow>
          if length (commits d) < length (QUAL lib i) then Return ((None, False), d)
          else
            (case processCommitsLoop lib (roundID d) (addrBytes d) (commits d) i True [] of
               (Inl e, i1) \<Rightarrow> Return ((Some e, True), d\<lparr>instance := Some i1\<rparr>)
             | (Inr (alreadyFinished, messages), i1) \<Rightarrow>
                 (let d1 = FireEvent EventDKGCommitsProcessed (Some (roundID d))
                             (d\<lparr>instance := Some i1\<rparr>)
                  in Return ((None, True),
                       if \<not> alreadyFinished then fold SendMsgCb messages d1 else d1))))"

subsubsection \<open>Phase II: complaints and reconstruction\<close>

text \<open>
  \<open>ProcessComplaints\<close> sends each message inside its loop, so the dealer is part of
  the loop's state; where the library returns a reconstruction message, the payload is
  the encoded complaint, as the source has it.
\<close>

fun processComplaintsLoop ::
  "'i dkglib \<Rightarrow> ComplaintCommits option list \<Rightarrow> 'i \<Rightarrow> ('i, 't) DKGDealer
     \<Rightarrow> error option \<times> 'i \<times> ('i, 't) DKGDealer" where
  "processComplaintsLoop lib [] i d = (None, i, d)"
| "processComplaintsLoop lib (None # rest) i d =
     processComplaintsLoop lib rest i
       (SendMsgCb (DKGData0 DKGReconstructCommit (roundID d) (addrBytes d)) d)"
| "processComplaintsLoop lib (Some complaint # rest) i d =
     (case ProcessComplaintCommits lib i complaint of
        (Inl e, i1) \<Rightarrow> (Some (''failed to ProcessComplaintCommits: '' @ e), i1, d)
      | (Inr None, i1) \<Rightarrow>
          processComplaintsLoop lib rest i1
            (SendMsgCb (DKGData0 DKGReconstructCommit (roundID d) (addrBytes d)) d)
      | (Inr (Some reconstructionMsg), i1) \<Rightarrow>
          (case encodeComplaint lib complaint of
             Inl e \<Rightarrow> (Some (''failed to encode response: '' @ e), i1, d)
           | Inr b \<Rightarrow>
               processComplaintsLoop lib rest i1
                 (SendMsgCb
                    ((DKGData0 DKGReconstructCommit (roundID d) (addrBytes d))\<lparr>Data := Some b\<rparr>)
                    d)))"

definition ProcessComplaints ::
  "'i dkglib \<Rightarrow> ('i, 't) DKGDealer \<Rightarrow> ('i, 't) transition_result" where
  "ProcessComplaints lib d =
     (case instance d of
        None \<Rightarrow> Panic nilDereference
      | Some i \<Rightarrow>
          if int (length (complaints d)) < int (length (QUAL lib i)) - 1
          then Return ((None, False), d)
          else
            (case processComplaintsLoop lib (complaints d) i d of
               (Some e, i1, d1) \<Rightarrow> Return ((Some e, True), d1\<lparr>instance := Some i1\<rparr>)
             | (None, i1, d1) \<Rightarrow>
                 Return ((None, True),
                   FireEvent EventDKGComplaintProcessed (Some (roundID d))
                     (d1\<lparr>instance := Some i1\<rparr>))))"

fun processReconstructCommitsLoop ::
  "'i dkglib \<Rightarrow> ReconstructCommits option list \<Rightarrow> 'i \<Rightarrow> error option \<times> 'i" where
  "processReconstructCommitsLoop lib [] i = (None, i)"
| "processReconstructCommitsLoop lib (None # rest) i =
     processReconstructCommitsLoop lib rest i"
| "processReconstructCommitsLoop lib (Some rc # rest) i =
     (case ProcessReconstructCommits_lib lib i rc of
        (Some e, i1) \<Rightarrow> (Some (''failed to ProcessReconstructCommits: '' @ e), i1)
      | (None, i1) \<Rightarrow> processReconstructCommitsLoop lib rest i1)"

definition ProcessReconstructCommits ::
  "'i dkglib \<Rightarrow> ('i, 't) DKGDealer \<Rightarrow> ('i, 't) transition_result" where
  "ProcessReconstructCommits lib d =
     (case instance d of
        None \<Rightarrow> Panic nilDereference
      | Some i \<Rightarrow>
          if int (length (reconstructCommits d)) < int (length (QUAL lib i)) - 1
          then Return ((None, False), d)
          else
            (case processReconstructCommitsLoop lib (reconstructCommits d) i of
               (Some e, i1) \<Rightarrow> Return ((Some e, True), d\<lparr>instance := Some i1\<rparr>)
             | (None, i1) \<Rightarrow>
                 (let d1 = FireEvent EventDKGReconstructCommitsProcessed (Some (roundID d))
                             (d\<lparr>instance := Some i1\<rparr>)
                  in if \<not> Finished lib i1
                     then Return
                       ((Some ''dkgState round is finished, but dkgState instance is not ready'',
                         True), d1)
                     else Return ((None, True), d1))))"

subsubsection \<open>The verifier\<close>

definition GetVerifier :: "'i dkglib \<Rightarrow> ('i, 't) DKGDealer \<Rightarrow> error + BLSVerifier" where
  "GetVerifier lib d =
     (case instance d of
        None \<Rightarrow> Inl errDKGVerifierNotReady
      | Some i \<Rightarrow>
          if \<not> Finished lib i then Inl errDKGVerifierNotReady
          else
            (case GetDistKeyShare lib i of
               Inl e \<Rightarrow> Inl (''failed to get DistKeyShare: '' @ e)
             | Inr distKeyShare \<Rightarrow>
                 Inr \<lparr>masterPubKey = dks_Commitments distKeyShare,
                      share = \<lparr>ID = participantID d,
                               Pub = (participantID d, pubKey d),
                               Priv = PriShare distKeyShare\<rparr>,
                      bls_t = (Size (validators d) div 3) * 2,
                      bls_n = Size (validators d)\<rparr>))"

subsubsection \<open>The queue of the dealer\<close>

text \<open>
  \<open>GenerateTransitions\<close> fills the queue with the seven methods of the dealer, which
  \<open>Transition\<close> names and \<open>runTransition\<close> runs.
\<close>

datatype Transition =
  T_SendDeals | T_ProcessDeals | T_ProcessResponses | T_ProcessJustifications
  | T_ProcessCommits | T_ProcessComplaints | T_ProcessReconstructCommits

definition GenerateTransitions ::
  "('i, Transition) DKGDealer \<Rightarrow> ('i, Transition) DKGDealer" where
  "GenerateTransitions d =
     d\<lparr>transitions :=
         [T_SendDeals, T_ProcessDeals, T_ProcessResponses, T_ProcessJustifications,
          T_ProcessCommits, T_ProcessComplaints, T_ProcessReconstructCommits]\<rparr>"

fun runTransition ::
  "'i dkglib \<Rightarrow> Transition \<Rightarrow> ('i, Transition) DKGDealer
     \<Rightarrow> ('i, Transition) transition_result" where
  "runTransition lib T_SendDeals d = SendDeals lib d"
| "runTransition lib T_ProcessDeals d = ProcessDeals lib d"
| "runTransition lib T_ProcessResponses d = ProcessResponses lib d"
| "runTransition lib T_ProcessJustifications d = ProcessJustifications lib d"
| "runTransition lib T_ProcessCommits d = ProcessCommits lib d"
| "runTransition lib T_ProcessComplaints d = ProcessComplaints lib d"
| "runTransition lib T_ProcessReconstructCommits d = ProcessReconstructCommits lib d"

subsubsection \<open>The dealers of a run\<close>

text \<open>
  \<open>NewDKGDealer\<close> is the only place that builds the struct: it sets the validators,
  the address and the two suites, makes the two maps and leaves every other field at its
  zero value.
\<close>

definition NewDKGDealer :: "ValidatorSet \<Rightarrow> bytes \<Rightarrow> ('i, 't) DKGDealer" where
  "NewDKGDealer vals addr =
     \<lparr>validators = vals, addrBytes = addr, participantID = 0, roundID = 0,
      sent = [], fired = [], pubKey = None, secKey = None,
      suiteG1 = Some (), suiteG2 = Some (), instance = None, transitions = [],
      pubKeys = [], deals = [], responses = [], justifications = [], commits = [],
      complaints = [], reconstructCommits = [], losers = []\<rparr>"

text \<open>
  \<open>PKStore.Add\<close> appends a key unless the store has it with the same address.
\<close>

definition Add :: "PK2Addr \<Rightarrow> PKStore \<Rightarrow> PKStore" where
  "Add newPk s =
     (if list_ex (\<lambda>pk. pk_Addr pk = pk_Addr newPk \<and> PK pk = PK newPk) s then s
      else s @ [newPk])"

text \<open>
  The dealers a run of the program can hold: the one \<open>NewDKGDealer\<close> returns, and
  what the methods of the \<open>Dealer\<close> interface make of such a dealer.  Every
  assignment that the file makes to a field of the dealer a method is called on is a
  step, so that a method that panics half-way leaves a dealer of this set too: the three
  writes of \<open>Start\<close>, whose message is a call of \<open>SendMsgCb\<close>; the write of each
  handler \<open>HandleDKG...\<close> into its store, which a call of \<open>Transit\<close> follows; the
  sorting of the store, the instance and the participant id in \<open>GetDeals\<close>.  The
  methods that write, as modelled above, are steps when they return; the remaining ones,
  \<open>GetState\<close>, \<open>GetLosers\<close>, \<open>GetVerifier\<close> and the readiness tests, only read.
  The mock dealers of the repository wrap a dealer and reach it through these methods.
\<close>

inductive reachable :: "'i dkglib \<Rightarrow> ('i, Transition) DKGDealer \<Rightarrow> bool" for lib where
  new: "reachable lib (NewDKGDealer vals addr)"
| startRound: "reachable lib d \<Longrightarrow> reachable lib (d\<lparr>roundID := roundID d + 1\<rparr>)"
| startSecKey: "reachable lib d \<Longrightarrow> reachable lib (d\<lparr>secKey := Some sk\<rparr>)"
| startPubKey: "reachable lib d \<Longrightarrow> reachable lib (d\<lparr>pubKey := Some pk\<rparr>)"
| reset: "reachable lib d \<Longrightarrow> reachable lib (ResetDKGData d)"
| generate: "reachable lib d \<Longrightarrow> reachable lib (GenerateTransitions d)"
| set: "reachable lib d \<Longrightarrow> reachable lib (SetTransitions ts d)"
| send: "reachable lib d \<Longrightarrow> reachable lib (SendMsgCb msg d)"
| fire: "reachable lib d \<Longrightarrow> reachable lib (FireEvent ev arg d)"
| transit: "reachable lib d \<Longrightarrow> Transit (runTransition lib) d = Some (Return (err, d'))
     \<Longrightarrow> reachable lib d'"
| storePubKey: "reachable lib d \<Longrightarrow> reachable lib (d\<lparr>pubKeys := Add pk2addr (pubKeys d)\<rparr>)"
| storeDeal: "reachable lib d \<Longrightarrow> reachable lib (d\<lparr>deals := deals d @ [(a, dl)]\<rparr>)"
| storeResponse: "reachable lib d \<Longrightarrow> reachable lib (d\<lparr>responses := responses d @ [resp]\<rparr>)"
| storeJustification: "reachable lib d \<Longrightarrow>
     reachable lib (d\<lparr>justifications := justifications d @ [(a, j)]\<rparr>)"
| storeCommit: "reachable lib d \<Longrightarrow> reachable lib (d\<lparr>commits := commits d @ [c]\<rparr>)"
| storeComplaint: "reachable lib d \<Longrightarrow>
     reachable lib (d\<lparr>complaints := complaints d @ [cc]\<rparr>)"
| storeReconstructCommit: "reachable lib d \<Longrightarrow>
     reachable lib (d\<lparr>reconstructCommits := reconstructCommits d @ [rc]\<rparr>)"
| sortPubKeys: "reachable lib d \<Longrightarrow>
     reachable lib (d\<lparr>pubKeys := sort_key pk_Addr (pubKeys d)\<rparr>)"
| setInstance: "reachable lib d \<Longrightarrow> reachable lib (d\<lparr>instance := i\<rparr>)"
| setParticipantID: "reachable lib d \<Longrightarrow> reachable lib (d\<lparr>participantID := k\<rparr>)"
| transition: "reachable lib d \<Longrightarrow> runTransition lib tn d = Return (r, d')
     \<Longrightarrow> reachable lib d'"
| getDeals: "reachable lib d \<Longrightarrow> GetDeals lib d = (msgs, d') \<Longrightarrow> reachable lib d'"
| getResponses: "reachable lib d \<Longrightarrow> GetResponses lib d = Return (msgs, d')
     \<Longrightarrow> reachable lib d'"
| getJustifications: "reachable lib d \<Longrightarrow> GetJustifications lib d = Return (msgs, d')
     \<Longrightarrow> reachable lib d'"
| getCommits: "reachable lib d \<Longrightarrow> GetCommits lib d = Return (cs, d') \<Longrightarrow> reachable lib d'"

section \<open>The consensus state with BLS randomness (consensus/BLSState.go)\<close>

subsection \<open>Data\<close>

text \<open>
  A height is an \<open>int64\<close>, a 64-bit word whose \<open>+\<close> wraps; a round is a Go \<open>int\<close>.
  The round steps are the constants of the \<open>cstypes\<close> package in their order, which
  \<open>stepNumber\<close> gives.  The types of votes, blocks and part sets belong to the packages
  \<open>types\<close> and \<open>cstypes\<close>, outside the sources at hand: a record here holds the fields
  the consensus state reads and writes, and their methods are parameters (see \<open>env\<close>).
  The message of a panic is the text of the source without its formatted values.
\<close>

type_synonym int64 = "64 word"

datatype RoundStepType =
  RoundStepNewHeight | RoundStepNewRound | RoundStepPropose | RoundStepPrevote
  | RoundStepPrevoteWait | RoundStepPrecommit | RoundStepPrecommitWait | RoundStepCommit

fun stepNumber :: "RoundStepType \<Rightarrow> nat" where
  "stepNumber RoundStepNewHeight = 1"
| "stepNumber RoundStepNewRound = 2"
| "stepNumber RoundStepPropose = 3"
| "stepNumber RoundStepPrevote = 4"
| "stepNumber RoundStepPrevoteWait = 5"
| "stepNumber RoundStepPrecommit = 6"
| "stepNumber RoundStepPrecommitWait = 7"
| "stepNumber RoundStepCommit = 8"

text \<open>A vote's type is a byte: a prevote, a precommit, or some other value.\<close>

datatype SignedMsgType = PrevoteType | PrecommitType | OtherType

record PartSetHeader =
  Total :: int
  psh_Hash :: bytes

record BlockID =
  Hash :: bytes
  PartsHeader :: PartSetHeader

definition emptyPartSetHeader :: PartSetHeader where
  "emptyPartSetHeader = \<lparr>Total = 0, psh_Hash = []\<rparr>"

record Block =
  RandomData :: bytes
  block_content :: bytes

record PartSet =
  ps_header :: PartSetHeader
  ps_count :: nat

record Proposal =
  POLRound :: int
  prop_BlockID :: BlockID

record Vote =
  vote_Type :: SignedMsgType
  vote_Height :: int64
  vote_Round :: int
  vote_BlockID :: BlockID
  Timestamp :: nat
  ValidatorAddress :: address
  ValidatorIndex :: int
  Signature :: bytes
  BLSSignature :: bytes

record DuplicateVoteEvidence =
  VoteA :: Vote
  VoteB :: Vote

datatype cs_error =
  ErrVoteHeightMismatch | ErrAddingVote | ErrVoteConflictingVotes DuplicateVoteEvidence
  | OtherError string

text \<open>
  What the consensus state does to its collaborators (event bus, event switch, WAL,
  internal message queue, evidence pool) is recorded in the order it happens.
\<close>

datatype Effect =
  PublishEventPolka | PublishEventUnlock | PublishEventRelock | PublishEventLock
  | PublishEventValidBlock | FireEventValidBlock
  | PublishEventVote Vote | FireEventVote Vote
  | WALFlushAndSync | SendInternalVote Vote | NewStep
  | AddEvidence DuplicateVoteEvidence

text \<open>
  The state: the fields of \<open>RoundState\<close> the functions below use, and of the
  consensus state around it.  \<open>ProposalBlock\<close>, \<open>LockedBlock\<close> and \<open>ValidBlock\<close> are
  pointers that may share one block, and \<open>enterCommit\<close> writes through one of them: a
  block pointer is an index into the store \<open>blocks\<close>.  \<open>Votes\<close> and \<open>LastCommit\<close> are
  the vote sets, of any types \<open>'hvs\<close> and \<open>'vs\<close>; \<open>dkgVerifier\<close> is what
  \<open>cs.dkg.Verifier()\<close> returns, nil or a verifier of any type \<open>'ver\<close>;
  \<open>privValidator\<close> is nil or the address of the node's key.
\<close>

type_synonym blockRef = nat

record ('hvs, 'vs, 'ver) BLSConsensusState =
  Height :: int64
  Round :: int
  Step :: RoundStepType
  CommitTime :: nat
  Validators :: ValidatorSet
  Proposal :: "Proposal option"
  ProposalBlock :: "blockRef option"
  ProposalBlockParts :: "PartSet option"
  LockedRound :: int
  LockedBlock :: "blockRef option"
  LockedBlockParts :: "PartSet option"
  ValidRound :: int
  ValidBlock :: "blockRef option"
  ValidBlockParts :: "PartSet option"
  Votes :: 'hvs
  CommitRound :: int
  LastCommit :: 'vs
  TriggeredTimeoutPrecommit :: bool
  blocks :: "Block list"
  SkipTimeoutCommit :: bool
  privValidator :: "address option"
  dkgVerifier :: "'ver option"
  effects :: "Effect list"

text \<open>
  A function of the consensus state returns its value and the state, or panics; the
  state at the panic is kept, since a deferred function still runs on it.
\<close>

datatype ('a, 's) exec = Done 'a | Panicked string 's

definition andThen :: "('s, 's) exec \<Rightarrow> ('s \<Rightarrow> ('a, 's) exec) \<Rightarrow> ('a, 's) exec" where
  "andThen r f = (case r of Done s \<Rightarrow> f s | Panicked m s \<Rightarrow> Panicked m s)"

text \<open>
  \<open>defer f\<close> before a body: \<open>f\<close> runs on the state the body leaves, on return and on
  panic alike, and a panic goes on after it.
\<close>

definition deferring :: "('s \<Rightarrow> 's) \<Rightarrow> ('s, 's) exec \<Rightarrow> ('s, 's) exec" where
  "deferring f r = (case r of Done s \<Rightarrow> Done (f s) | Panicked m s \<Rightarrow> Panicked m (f s))"

text \<open>
  The collaborators.  The vote sets, blocks, part sets, the block executor, the block
  store, the BLS verifier and the private validator are outside the sources at hand; so
  are \<open>isProposalComplete\<close> and \<open>voteTime\<close>, methods of the embedded consensus state.
  The step routines \<open>enterNewRound\<close>, \<open>enterPrevote\<close>, \<open>enterPrevoteWait\<close> and
  \<open>enterPrecommitWait\<close> are not modelled: \<open>addVote\<close> calls them as given.  Of
  \<open>finalizeCommit\<close> the guard and the checks are modelled; \<open>commitBlock\<close> is the
  rest of it, from the saving of the block to \<open>scheduleRound0\<close>.  Every property
  below holds for any behaviour of these parameters.
\<close>

record ('hvs, 'vs, 'ver) env =
  Prevotes :: "'hvs \<Rightarrow> int \<Rightarrow> 'vs"
  Precommits :: "'hvs \<Rightarrow> int \<Rightarrow> 'vs"
  POLInfo :: "'hvs \<Rightarrow> int \<times> BlockID"
  Votes_AddVote :: "'hvs \<Rightarrow> Vote \<Rightarrow> string \<Rightarrow> (bool \<times> cs_error option) \<times> 'hvs"
  TwoThirdsMajority :: "'vs \<Rightarrow> BlockID option"
  HasTwoThirdsAny :: "'vs \<Rightarrow> bool"
  HasAll :: "'vs \<Rightarrow> bool"
  GetVotes :: "'vs \<Rightarrow> Vote option list"
  VoteSet_AddVote :: "'vs \<Rightarrow> Vote \<Rightarrow> (bool \<times> cs_error option) \<times> 'vs"
  HashesTo :: "Block option \<Rightarrow> bytes \<Rightarrow> bool"
  SetRandomData :: "bytes \<Rightarrow> Block \<Rightarrow> Block"
  HasHeader :: "PartSet option \<Rightarrow> PartSetHeader \<Rightarrow> bool"
  NewPartSetFromHeader :: "PartSetHeader \<Rightarrow> PartSet"
  ValidateBlock :: "Block option \<Rightarrow> error option"
  LoadBlock :: "int64 \<Rightarrow> Block option"
  InitialRandomData :: bytes
  Sign :: "'ver \<Rightarrow> bytes \<Rightarrow> bytes \<times> error option"
  Recover :: "'ver \<Rightarrow> bytes \<Rightarrow> Vote option list \<Rightarrow> error + bytes"
  VerifyRandomShare :: "'ver \<Rightarrow> address \<Rightarrow> bytes \<Rightarrow> bytes \<Rightarrow> error option"
  VerifyRandomData :: "'ver \<Rightarrow> bytes \<Rightarrow> bytes \<Rightarrow> error option"
  SignData :: "Vote \<Rightarrow> error option \<times> Vote"
  voteTime :: "('hvs, 'vs, 'ver) BLSConsensusState \<Rightarrow> nat"
  now :: nat
  isProposalComplete :: "('hvs, 'vs, 'ver) BLSConsensusState \<Rightarrow> bool"
  enterNewRound :: "int64 \<Rightarrow> int \<Rightarrow> ('hvs, 'vs, 'ver) BLSConsensusState
     \<Rightarrow> (('hvs, 'vs, 'ver) BLSConsensusState, ('hvs, 'vs, 'ver) BLSConsensusState) exec"
  enterPrevote :: "int64 \<Rightarrow> int \<Rightarrow> ('hvs, 'vs, 'ver) BLSConsensusState
     \<Rightarrow> (('hvs, 'vs, 'ver) BLSConsensusState, ('hvs, 'vs, 'ver) BLSConsensusState) exec"
  enterPrevoteWait :: "int64 \<Rightarrow> int \<Rightarrow> ('hvs, 'vs, 'ver) BLSConsensusState
     \<Rightarrow> (('hvs, 'vs, 'ver) BLSConsensusState, ('hvs, 'vs, 'ver) BLSConsensusState) exec"
  enterPrecommitWait :: "int64 \<Rightarrow> int \<Rightarrow> ('hvs, 'vs, 'ver) BLSConsensusState
     \<Rightarrow> (('hvs, 'vs, 'ver) BLSConsensusState, ('hvs, 'vs, 'ver) BLSConsensusState) exec"
  commitBlock :: "int64 \<Rightarrow> ('hvs, 'vs, 'ver) BLSConsensusState
     \<Rightarrow> (('hvs, 'vs, 'ver) BLSConsensusState, ('hvs, 'vs, 'ver) BLSConsensusState) exec"

subsection \<open>Helpers\<close>

definition emit ::
  "Effect \<Rightarrow> ('hvs, 'vs, 'ver) BLSConsensusState \<Rightarrow> ('hvs, 'vs, 'ver) BLSConsensusState" where
  "emit e cs = cs\<lparr>effects := effects cs @ [e]\<rparr>"

text \<open>
  Following a block pointer.  The functions below store only pointers they were given,
  so an index is within the store; one that is not reads as nil.
\<close>

definition blockAt :: "('hvs, 'vs, 'ver) BLSConsensusState \<Rightarrow> blockRef option \<Rightarrow> Block option" where
  "blockAt cs p =
     (case p of
        None \<Rightarrow> None
      | Some r \<Rightarrow> if r < length (blocks cs) then Some (blocks cs ! r) else None)"

definition HasAddress :: "ValidatorSet \<Rightarrow> address \<Rightarrow> bool" where
  "HasAddress vs a = (GetByAddress vs a \<noteq> None)"

fun indexByAddress :: "ValidatorSet \<Rightarrow> address \<Rightarrow> int \<Rightarrow> int" where
  "indexByAddress [] a k = - 1"
| "indexByAddress (v # vs) a k = (if Address v = a then k else indexByAddress vs a (k + 1))"

text \<open>
  \<open>updateRoundStep\<close> and \<open>newStep\<close> are methods of the embedded consensus state.
  \<open>updateToState\<close> calls \<open>cs.updateRoundStep(0, cstypes.RoundStepNewHeight)\<close> under the
  comment ``The round becomes 0 and cs.Step becomes cstypes.RoundStepNewHeight'', and
  \<open>cs.newStep()\<close> under ``Finally, broadcast RoundState'': the first sets round and
  step, the second is an effect.
\<close>

definition updateRoundStep ::
  "int \<Rightarrow> RoundStepType \<Rightarrow> ('hvs, 'vs, 'ver) BLSConsensusState
     \<Rightarrow> ('hvs, 'vs, 'ver) BLSConsensusState" where
  "updateRoundStep round step cs = cs\<lparr>Round := round, Step := step\<rparr>"

definition newStep :: "('hvs, 'vs, 'ver) BLSConsensusState \<Rightarrow> ('hvs, 'vs, 'ver) BLSConsensusState" where
  "newStep cs = emit NewStep cs"

definition getPreviousBlock ::
  "('hvs, 'vs, 'ver) env \<Rightarrow> ('hvs, 'vs, 'ver) BLSConsensusState \<Rightarrow> Block option" where
  "getPreviousBlock env cs =
     (if Height cs = 1 then Some \<lparr>RandomData = InitialRandomData env, block_content = []\<rparr>
      else LoadBlock env (Height cs - 1))"

subsection \<open>Signing a vote\<close>

definition signVote ::
  "('hvs, 'vs, 'ver) env \<Rightarrow> SignedMsgType \<Rightarrow> bytes \<Rightarrow> PartSetHeader \<Rightarrow> bytes
     \<Rightarrow> ('hvs, 'vs, 'ver) BLSConsensusState
     \<Rightarrow> ((Vote \<times> error option) \<times> ('hvs, 'vs, 'ver) BLSConsensusState,
         ('hvs, 'vs, 'ver) BLSConsensusState) exec" where
  "signVote env voteType hash header data cs =
     (let cs1 = emit WALFlushAndSync cs in
      case privValidator cs1 of
        None \<Rightarrow> Panicked nilDereference cs1
      | Some addr \<Rightarrow>
          (case SignData env
                  \<lparr>vote_Type = voteType, vote_Height = Height cs1, vote_Round = Round cs1,
                   vote_BlockID = \<lparr>Hash = hash, PartsHeader = header\<rparr>,
                   Timestamp = voteTime env cs1, ValidatorAddress = addr,
                   ValidatorIndex = indexByAddress (Validators cs1) addr 0,
                   Signature = [], BLSSignature = data\<rparr> of
             (err, vote) \<Rightarrow> Done ((vote, err), cs1)))"

text \<open>
  \<open>signAddVote\<close> returns the vote it signed and queued, or nil.  \<open>cs.dkg\<close> itself is
  taken to be set (the option \<open>BLSWithDKG\<close>); its \<open>Verifier()\<close> may be nil.
\<close>

definition signAddVote ::
  "('hvs, 'vs, 'ver) env \<Rightarrow> SignedMsgType \<Rightarrow> bytes \<Rightarrow> PartSetHeader
     \<Rightarrow> ('hvs, 'vs, 'ver) BLSConsensusState
     \<Rightarrow> (Vote option \<times> ('hvs, 'vs, 'ver) BLSConsensusState,
         ('hvs, 'vs, 'ver) BLSConsensusState) exec" where
  "signAddVote env voteType hash header cs =
     (case privValidator cs of
        None \<Rightarrow> Done (None, cs)
      | Some addr \<Rightarrow>
          if \<not> HasAddress (Validators cs) addr then Done (None, cs)
          else
            (case dkgVerifier cs of
               None \<Rightarrow> Done (None, cs)
             | Some verifier \<Rightarrow>
                 (let finish = (\<lambda>randomData.
                        case signVote env voteType hash header randomData cs of
                          Panicked m cs1 \<Rightarrow> Panicked m cs1
                        | Done ((vote, err), cs1) \<Rightarrow>
                            if err = None then Done (Some vote, emit (SendInternalVote vote) cs1)
                            else Done (None, cs1))
                  in if voteType = PrecommitType then
                       (case getPreviousBlock env cs of
                          None \<Rightarrow> Panicked nilDereference cs
                        | Some prev \<Rightarrow>
                            (case Sign env verifier (RandomData prev) of
                               (randomData, err) \<Rightarrow>
                                 if err \<noteq> None \<or> length randomData = 0 then Done (None, cs)
                                 else finish randomData))
                     else finish [])))"

subsection \<open>Precommit\<close>

text \<open>
  The body of \<open>enterPrecommit\<close> after the guard; the deferred function runs on the
  state the body leaves, whether it returns or panics.
\<close>

definition precommit ::
  "('hvs, 'vs, 'ver) env \<Rightarrow> bytes \<Rightarrow> PartSetHeader \<Rightarrow> ('hvs, 'vs, 'ver) BLSConsensusState
     \<Rightarrow> (('hvs, 'vs, 'ver) BLSConsensusState, ('hvs, 'vs, 'ver) BLSConsensusState) exec" where
  "precommit env hash header cs =
     (case signAddVote env PrecommitType hash header cs of
        Panicked m cs1 \<Rightarrow> Panicked m cs1
      | Done (_, cs1) \<Rightarrow> Done cs1)"

definition enterPrecommit_body ::
  "('hvs, 'vs, 'ver) env \<Rightarrow> int \<Rightarrow> ('hvs, 'vs, 'ver) BLSConsensusState
     \<Rightarrow> (('hvs, 'vs, 'ver) BLSConsensusState, ('hvs, 'vs, 'ver) BLSConsensusState) exec" where
  "enterPrecommit_body env round cs =
     (case TwoThirdsMajority env (Prevotes env (Votes cs) round) of
        None \<Rightarrow> precommit env [] emptyPartSetHeader cs
      | Some blockID \<Rightarrow>
          (let cs1 = emit PublishEventPolka cs in
           if fst (POLInfo env (Votes cs1)) < round then
             Panicked ''This POLRound should be the round'' cs1
           else if length (Hash blockID) = 0 then
             precommit env [] emptyPartSetHeader
               (if LockedBlock cs1 = None then cs1
                else emit PublishEventUnlock
                       (cs1\<lparr>LockedRound := - 1, LockedBlock := None, LockedBlockParts := None\<rparr>))
           else if HashesTo env (blockAt cs1 (LockedBlock cs1)) (Hash blockID) then
             precommit env (Hash blockID) (PartsHeader blockID)
               (emit PublishEventRelock (cs1\<lparr>LockedRound := round\<rparr>))
           else if HashesTo env (blockAt cs1 (ProposalBlock cs1)) (Hash blockID) then
             (case ValidateBlock env (blockAt cs1 (ProposalBlock cs1)) of
                Some err \<Rightarrow>
                  Panicked (''enterPrecommit: +2/3 prevoted for an invalid block: '' @ err) cs1
              | None \<Rightarrow>
                  precommit env (Hash blockID) (PartsHeader blockID)
                    (emit PublishEventLock
                       (cs1\<lparr>LockedRound := round, LockedBlock := ProposalBlock cs1,
                            LockedBlockParts := ProposalBlockParts cs1\<rparr>)))
           else
             (let cs2 = cs1\<lparr>LockedRound := - 1, LockedBlock := None, LockedBlockParts := None\<rparr>;
                  cs3 = (if \<not> HasHeader env (ProposalBlockParts cs2) (PartsHeader blockID)
                         then cs2\<lparr>ProposalBlock := None,
                                  ProposalBlockParts :=
                                    Some (NewPartSetFromHeader env (PartsHeader blockID))\<rparr>
                         else cs2)
              in precommit env [] emptyPartSetHeader (emit PublishEventUnlock cs3))))"

definition enterPrecommit ::
  "('hvs, 'vs, 'ver) env \<Rightarrow> int64 \<Rightarrow> int \<Rightarrow> ('hvs, 'vs, 'ver) BLSConsensusState
     \<Rightarrow> (('hvs, 'vs, 'ver) BLSConsensusState, ('hvs, 'vs, 'ver) BLSConsensusState) exec" where
  "enterPrecommit env height round cs =
     (if Height cs \<noteq> height \<or> round < Round cs
         \<or> (Round cs = round \<and> stepNumber RoundStepPrecommit \<le> stepNumber (Step cs))
      then Done cs
      else
        deferring (\<lambda>cs1. newStep (updateRoundStep round RoundStepPrecommit cs1))
          (enterPrecommit_body env round cs))"

subsection \<open>Commit\<close>

text \<open>
  \<open>finalizeCommit\<close>: the guard, then the checks, each a panic when it fails; the
  last one has the verifier check the random data of the proposal block against that of
  the previous block.  Reading the header of a nil block and calling a nil verifier are
  nil dereferences.
\<close>

definition finalizeCommit ::
  "('hvs, 'vs, 'ver) env \<Rightarrow> int64 \<Rightarrow> ('hvs, 'vs, 'ver) BLSConsensusState
     \<Rightarrow> (('hvs, 'vs, 'ver) BLSConsensusState, ('hvs, 'vs, 'ver) BLSConsensusState) exec" where
  "finalizeCommit env height cs =
     (if Height cs \<noteq> height \<or> Step cs \<noteq> RoundStepCommit then Done cs
      else
        (let block = ProposalBlock cs; blockParts = ProposalBlockParts cs in
         case TwoThirdsMajority env (Precommits env (Votes cs) (CommitRound cs)) of
           None \<Rightarrow>
             Panicked ''Cannot finalizeCommit, commit does not have two thirds majority'' cs
         | Some blockID \<Rightarrow>
             if \<not> HasHeader env blockParts (PartsHeader blockID) then
               Panicked ''Expected ProposalBlockParts header to be commit header'' cs
             else if \<not> HashesTo env (blockAt cs block) (Hash blockID) then
               Panicked ''Cannot finalizeCommit, ProposalBlock does not hash to commit hash'' cs
             else
               (case ValidateBlock env (blockAt cs block) of
                  Some err \<Rightarrow> Panicked (''+2/3 committed an invalid block: '' @ err) cs
                | None \<Rightarrow>
                    (case getPreviousBlock env cs of
                       None \<Rightarrow> Panicked nilDereference cs
                     | Some prevBlock \<Rightarrow>
                         (case blockAt cs block of
                            None \<Rightarrow> Panicked nilDereference cs
                          | Some b \<Rightarrow>
                              (case dkgVerifier cs of
                                 None \<Rightarrow> Panicked nilDereference cs
                               | Some verifier \<Rightarrow>
                                   (case VerifyRandomData env verifier (RandomData prevBlock)
                                           (RandomData b) of
                                      Some err \<Rightarrow>
                                        Panicked
                                          (''Cannot finalizeCommit, ProposalBlock has invalid random value: ''
                                             @ err) cs
                                    | None \<Rightarrow> commitBlock env height cs)))))))"

definition tryFinalizeCommit ::
  "('hvs, 'vs, 'ver) env \<Rightarrow> int64 \<Rightarrow> ('hvs, 'vs, 'ver) BLSConsensusState
     \<Rightarrow> (('hvs, 'vs, 'ver) BLSConsensusState, ('hvs, 'vs, 'ver) BLSConsensusState) exec" where
  "tryFinalizeCommit env height cs =
     (if Height cs \<noteq> height then Panicked ''tryFinalizeCommit() cs.Height vs height'' cs
      else
        (case TwoThirdsMajority env (Precommits env (Votes cs) (CommitRound cs)) of
           None \<Rightarrow> Done cs
         | Some blockID \<Rightarrow>
             if length (Hash blockID) = 0 then Done cs
             else if \<not> HashesTo env (blockAt cs (ProposalBlock cs)) (Hash blockID) then Done cs
             else finalizeCommit env height cs))"

text \<open>
  The body of \<open>enterCommit\<close> between the guard and the end of the function.  A call on
  a nil verifier and a field read from a nil previous block are nil dereferences.
  \<open>SetRandomData\<close> writes into the block \<open>ProposalBlock\<close> points to.
\<close>

definition enterCommit_body ::
  "('hvs, 'vs, 'ver) env \<Rightarrow> int \<Rightarrow> ('hvs, 'vs, 'ver) BLSConsensusState
     \<Rightarrow> (('hvs, 'vs, 'ver) BLSConsensusState, ('hvs, 'vs, 'ver) BLSConsensusState) exec" where
  "enterCommit_body env commitRound cs =
     (let precommits = Precommits env (Votes cs) commitRound in
      case TwoThirdsMajority env precommits of
        None \<Rightarrow> Panicked ''RunActionCommit() expects +2/3 precommits'' cs
      | Some blockID \<Rightarrow>
          (let cs1 = (if HashesTo env (blockAt cs (LockedBlock cs)) (Hash blockID)
                      then cs\<lparr>ProposalBlock := LockedBlock cs,
                              ProposalBlockParts := LockedBlockParts cs\<rparr>
                      else cs)
           in case dkgVerifier cs1 of
                None \<Rightarrow> Panicked nilDereference cs1
              | Some verifier \<Rightarrow>
                  (case getPreviousBlock env cs1 of
                     None \<Rightarrow> Panicked nilDereference cs1
                   | Some prev \<Rightarrow>
                       (case Recover env verifier (RandomData prev) (GetVotes env precommits) of
                          Inl err \<Rightarrow>
                            Panicked (''Failed to recover random data from votes: '' @ err) cs1
                        | Inr randomData \<Rightarrow>
                            (let cs2 =
                               (case ProposalBlock cs1 of
                                  None \<Rightarrow> cs1
                                | Some r \<Rightarrow>
                                    cs1\<lparr>blocks :=
                                      (blocks cs1)[r := SetRandomData env randomData (blocks cs1 ! r)]\<rparr>)
                             in if \<not> HashesTo env (blockAt cs2 (ProposalBlock cs2)) (Hash blockID)
                                then
                                  (if \<not> HasHeader env (ProposalBlockParts cs2)
                                          (PartsHeader blockID)
                                   then Done
                                     (emit FireEventValidBlock
                                       (emit PublishEventValidBlock
                                         (cs2\<lparr>ProposalBlock := None,
                                              ProposalBlockParts :=
                                                Some (NewPartSetFromHeader env
                                                        (PartsHeader blockID))\<rparr>)))
                                   else Done cs2)
                                else Done cs2)))))"

text \<open>
  \<open>enterCommit\<close>: the deferred function calls \<open>recover()\<close>, so a panic of the body ends
  there; then it sets step, commit round and commit time and calls
  \<open>tryFinalizeCommit\<close>.  A panic of \<open>tryFinalizeCommit\<close> or of
  \<open>finalizeCommit\<close> under it is not recovered.
\<close>

definition enterCommit ::
  "('hvs, 'vs, 'ver) env \<Rightarrow> int64 \<Rightarrow> int \<Rightarrow> ('hvs, 'vs, 'ver) BLSConsensusState
     \<Rightarrow> (('hvs, 'vs, 'ver) BLSConsensusState, ('hvs, 'vs, 'ver) BLSConsensusState) exec" where
  "enterCommit env height commitRound cs =
     (if Height cs \<noteq> height \<or> stepNumber RoundStepCommit \<le> stepNumber (Step cs) then Done cs
      else
        (let cs1 = (case enterCommit_body env commitRound cs of
                      Done s \<Rightarrow> s
                    | Panicked m s \<Rightarrow> s)
         in tryFinalizeCommit env height
              (newStep ((updateRoundStep (Round cs1) RoundStepCommit cs1)
                 \<lparr>CommitRound := commitRound, CommitTime := now env\<rparr>))))"

subsection \<open>Adding a vote\<close>

text \<open>
  The part of \<open>addVote\<close> for a vote of the current height, after the vote set took the
  vote: the switch on the vote's type.  \<open>height\<close> is \<open>cs.Height\<close> as read before the
  vote was added.
\<close>

definition addVote_prevote ::
  "('hvs, 'vs, 'ver) env \<Rightarrow> int64 \<Rightarrow> Vote \<Rightarrow> ('hvs, 'vs, 'ver) BLSConsensusState
     \<Rightarrow> (('hvs, 'vs, 'ver) BLSConsensusState, ('hvs, 'vs, 'ver) BLSConsensusState) exec" where
  "addVote_prevote env height vote cs =
     (let prevotes = Prevotes env (Votes cs) (vote_Round vote);
          cs3 =
            (case TwoThirdsMajority env prevotes of
               None \<Rightarrow> cs
             | Some blockID \<Rightarrow>
                 (let cs1 =
                        (if LockedBlock cs \<noteq> None \<and> LockedRound cs < vote_Round vote
                            \<and> vote_Round vote \<le> Round cs
                            \<and> \<not> HashesTo env (blockAt cs (LockedBlock cs)) (Hash blockID)
                         then emit PublishEventUnlock
                                (cs\<lparr>LockedRound := - 1, LockedBlock := None,
                                    LockedBlockParts := None\<rparr>)
                         else cs)
                  in if length (Hash blockID) \<noteq> 0 \<and> ValidRound cs1 < vote_Round vote
                        \<and> vote_Round vote = Round cs1
                     then
                       (let cs2 =
                              (if HashesTo env (blockAt cs1 (ProposalBlock cs1)) (Hash blockID)
                               then cs1\<lparr>ValidRound := vote_Round vote,
                                        ValidBlock := ProposalBlock cs1,
                                        ValidBlockParts := ProposalBlockParts cs1\<rparr>
                               else cs1\<lparr>ProposalBlock := None\<rparr>);
                            cs2' =
                              (if \<not> HasHeader env (ProposalBlockParts cs2) (PartsHeader blockID)
                               then cs2\<lparr>ProposalBlockParts :=
                                          Some (NewPartSetFromHeader env (PartsHeader blockID))\<rparr>
                               else cs2)
                        in emit PublishEventValidBlock (emit FireEventValidBlock cs2'))
                     else cs1))
      in if Round cs3 < vote_Round vote \<and> HasTwoThirdsAny env prevotes then
           enterNewRound env height (vote_Round vote) cs3
         else if Round cs3 = vote_Round vote
                 \<and> stepNumber RoundStepPrevote \<le> stepNumber (Step cs3) then
           (case TwoThirdsMajority env prevotes of
              Some blockID \<Rightarrow>
                if isProposalComplete env cs3 \<or> length (Hash blockID) = 0
                then enterPrecommit env height (vote_Round vote) cs3
                else if HasTwoThirdsAny env prevotes
                then enterPrevoteWait env height (vote_Round vote) cs3
                else Done cs3
            | None \<Rightarrow>
                if HasTwoThirdsAny env prevotes
                then enterPrevoteWait env height (vote_Round vote) cs3
                else Done cs3)
         else if (case Proposal cs3 of
                    None \<Rightarrow> False
                  | Some proposal \<Rightarrow> 0 \<le> POLRound proposal \<and> POLRound proposal = vote_Round vote)
         then (if isProposalComplete env cs3 then enterPrevote env height (Round cs3) cs3
               else Done cs3)
         else Done cs3)"

definition addVote_precommit ::
  "('hvs, 'vs, 'ver) env \<Rightarrow> int64 \<Rightarrow> Vote \<Rightarrow> ('hvs, 'vs, 'ver) BLSConsensusState
     \<Rightarrow> (('hvs, 'vs, 'ver) BLSConsensusState, ('hvs, 'vs, 'ver) BLSConsensusState) exec" where
  "addVote_precommit env height vote cs =
     (let precommits = Precommits env (Votes cs) (vote_Round vote) in
      case TwoThirdsMajority env precommits of
        Some blockID \<Rightarrow>
          andThen (enterNewRound env height (vote_Round vote) cs) (\<lambda>cs1.
          andThen (enterPrecommit env height (vote_Round vote) cs1) (\<lambda>cs2.
            if length (Hash blockID) \<noteq> 0 then
              andThen (enterCommit env height (vote_Round vote) cs2) (\<lambda>cs3.
                if SkipTimeoutCommit cs3 \<and> HasAll env precommits
                then enterNewRound env (Height cs3) 0 cs3
                else Done cs3)
            else enterPrecommitWait env height (vote_Round vote) cs2))
      | None \<Rightarrow>
          if Round cs \<le> vote_Round vote \<and> HasTwoThirdsAny env precommits then
            andThen (enterNewRound env height (vote_Round vote) cs)
              (enterPrecommitWait env height (vote_Round vote))
          else Done cs)"

text \<open>
  \<open>addVote\<close> returns \<open>(added, err)\<close>.  A vote of the previous height goes to
  \<open>LastCommit\<close> if the node is in \<open>NewHeight\<close> and the vote is a precommit; a vote of
  any other height but the current one is ignored; a precommit of the current height
  must carry a valid BLS share before the vote set sees it.
\<close>

definition addVote ::
  "('hvs, 'vs, 'ver) env \<Rightarrow> Vote \<Rightarrow> string \<Rightarrow> ('hvs, 'vs, 'ver) BLSConsensusState
     \<Rightarrow> ((bool \<times> cs_error option) \<times> ('hvs, 'vs, 'ver) BLSConsensusState,
         ('hvs, 'vs, 'ver) BLSConsensusState) exec" where
  "addVote env vote peerID cs =
     (if vote_Height vote + 1 = Height cs then
        (if \<not> (Step cs = RoundStepNewHeight \<and> vote_Type vote = PrecommitType) then
           Done ((False, Some ErrVoteHeightMismatch), cs)
         else
           (case VoteSet_AddVote env (LastCommit cs) vote of
              ((added, err), lastCommit) \<Rightarrow>
                (let cs1 = cs\<lparr>LastCommit := lastCommit\<rparr> in
                 if \<not> added then Done ((added, err), cs1)
                 else
                   (let cs2 = emit (FireEventVote vote) (emit (PublishEventVote vote) cs1) in
                    if SkipTimeoutCommit cs2 \<and> HasAll env (LastCommit cs2) then
                      andThen (enterNewRound env (Height cs2) 0 cs2)
                        (\<lambda>cs3. Done ((added, err), cs3))
                    else Done ((added, err), cs2)))))
      else if vote_Height vote \<noteq> Height cs then
        Done ((False, Some ErrVoteHeightMismatch), cs)
      else
        (let share =
           (if vote_Type vote = PrecommitType then
              (case getPreviousBlock env cs of
                 None \<Rightarrow> Panicked nilDereference cs
               | Some prev \<Rightarrow>
                   (case dkgVerifier cs of
                      None \<Rightarrow> Panicked nilDereference cs
                    | Some verifier \<Rightarrow>
                        Done (VerifyRandomShare env verifier (ValidatorAddress vote)
                                (RandomData prev) (BLSSignature vote))))
            else Done None)
         in case share of
              Panicked m cs1 \<Rightarrow> Panicked m cs1
            | Done (Some err) \<Rightarrow>
                Done ((False,
                       Some (OtherError (''random share authenticy check failed: '' @ err))), cs)
            | Done None \<Rightarrow>
                (let height = Height cs in
                 case Votes_AddVote env (Votes cs) vote peerID of
                   ((added, err), votes) \<Rightarrow>
                     (let cs1 = cs\<lparr>Votes := votes\<rparr> in
                      if \<not> added then Done ((added, err), cs1)
                      else
                        (let cs2 = emit (FireEventVote vote) (emit (PublishEventVote vote) cs1)
                         in andThen
                              (case vote_Type vote of
                                 PrevoteType \<Rightarrow> addVote_prevote env height vote cs2
                               | PrecommitType \<Rightarrow> addVote_precommit env height vote cs2
                               | OtherType \<Rightarrow> Panicked ''Unexpected vote type'' cs2)
                              (\<lambda>cs3. Done ((added, err), cs3)))))))"

text \<open>
  \<open>tryAddVote\<close>: a height mismatch is passed on; a conflicting vote goes to the
  evidence pool unless it carries the node's own address; any other error becomes
  \<open>ErrAddingVote\<close>.  \<open>cs.privValidator.GetPubKey()\<close> on a nil validator is a nil
  dereference.
\<close>

definition tryAddVote ::
  "('hvs, 'vs, 'ver) env \<Rightarrow> Vote \<Rightarrow> string \<Rightarrow> ('hvs, 'vs, 'ver) BLSConsensusState
     \<Rightarrow> ((bool \<times> cs_error option) \<times> ('hvs, 'vs, 'ver) BLSConsensusState,
         ('hvs, 'vs, 'ver) BLSConsensusState) exec" where
  "tryAddVote env vote peerID cs =
     (case addVote env vote peerID cs of
        Panicked m cs1 \<Rightarrow> Panicked m cs1
      | Done ((added, err), cs1) \<Rightarrow>
          (case err of
             None \<Rightarrow> Done ((added, None), cs1)
           | Some ErrVoteHeightMismatch \<Rightarrow> Done ((added, err), cs1)
           | Some (ErrVoteConflictingVotes evidence) \<Rightarrow>
               (case privValidator cs1 of
                  None \<Rightarrow> Panicked nilDereference cs1
                | Some addr \<Rightarrow>
                    if ValidatorAddress vote = addr then Done ((added, err), cs1)
                    else Done ((added, err), emit (AddEvidence evidence) cs1))
           | Some _ \<Rightarrow> Done ((added, Some ErrAddingVote), cs1)))"

section \<open>Reference definitions and example inputs\<close>

text \<open>
  The transition queue as the specification words it: the transitions run in queue
  order; one that is not ready is a no-op and stays; one that is ready and succeeds is
  consumed; one that is ready and fails aborts and stays.  The result names the error,
  the queue that remains and the dealer.
\<close>

fun Transit_spec ::
  "('t \<Rightarrow> ('i, 't) DKGDealer \<Rightarrow> ('i, 't) transition_result) \<Rightarrow> 't list \<Rightarrow> ('i, 't) DKGDealer
     \<Rightarrow> (error option \<times> 't list \<times> ('i, 't) DKGDealer) outcome" where
  "Transit_spec run [] d = Return (None, [], d)"
| "Transit_spec run (tn # rest) d =
     (case run tn d of
        Panic m \<Rightarrow> Panic m
      | Return ((err, ready), d1) \<Rightarrow>
          if \<not> ready then Return (None, tn # rest, d1)
          else if err \<noteq> None then Return (err, tn # rest, d1)
          else Transit_spec run rest (d1\<lparr>transitions := rest\<rparr>))"

text \<open>
  No transition of the sources assigns \<open>d.transitions\<close>; \<open>keepsQueue\<close> says so of
  the closures in a queue.
\<close>

definition keepsQueue :: "('t \<Rightarrow> ('i, 't) DKGDealer \<Rightarrow> ('i, 't) transition_result) \<Rightarrow> bool" where
  "keepsQueue run =
     (\<forall>tn d r d1. run tn d = Return (r, d1) \<longrightarrow> transitions d1 = transitions d)"

text \<open>
  What the library answers to each commits bundle in turn, when \<open>ProcessCommits\<close>
  feeds it \<open>d.commits\<close> from instance \<open>i\<close> on: a complaint or none.
\<close>

fun complaintsFor :: "'i dkglib \<Rightarrow> SecretCommits list \<Rightarrow> 'i \<Rightarrow> ComplaintCommits option list" where
  "complaintsFor lib [] i = []"
| "complaintsFor lib (c # cs) i =
     (case ProcessSecretCommits lib i c of
        (r, i1) \<Rightarrow> (case r of Inl _ \<Rightarrow> None | Inr x \<Rightarrow> x) # complaintsFor lib cs i1)"

text \<open>
  A small stand-in for the library, to run the dealer on concrete inputs: an instance
  is what it was built with and what it will answer.
\<close>

record exInstance =
  ex_threshold :: int
  ex_certified :: bool
  ex_finished :: bool
  ex_qual :: "int list"
  ex_complain :: "int list"

definition exLib :: "exInstance dkglib" where
  "exLib =
     \<lparr>NewDistKeyGenerator = (\<lambda>sk pks th. Inr \<lparr>ex_threshold = th, ex_certified = False,
          ex_finished = False, ex_qual = [], ex_complain = []\<rparr>),
      Deals = (\<lambda>i. (Inr [], i)),
      ProcessDeal = (\<lambda>i d.
          (Inr \<lparr>resp_Index = deal_Index d, Response_Index = 0, Approved = True\<rparr>, i)),
      ProcessResponse = (\<lambda>i r. (Inr None, i)),
      Certified = ex_certified,
      Finished = ex_finished,
      QUAL = ex_qual,
      ProcessJustification = (\<lambda>i j. (None, i)),
      GetSecretCommits = (\<lambda>i. Inr \<lparr>sc_Index = 0, Commitments = []\<rparr>),
      ProcessSecretCommits = (\<lambda>i c.
          (if sc_Index c \<in> set (ex_complain i)
           then Inr (Some \<lparr>cc_Index = sc_Index c, Deal_Commitments = Commitments c\<rparr>)
           else Inr None, i)),
      ProcessComplaintCommits = (\<lambda>i c. (Inr None, i)),
      ProcessReconstructCommits_lib = (\<lambda>i r. (None, i)),
      GetDistKeyShare = (\<lambda>i. Inr \<lparr>dks_Commitments = [], PriShare = 0\<rparr>),
      encodeDeal = (\<lambda>d. Inr (deal_payload d)),
      encodeResponse = (\<lambda>r. Inr []),
      encodeJustification = (\<lambda>j. Inr (just_payload j)),
      encodeCommits = (\<lambda>c. Inr (Commitments c)),
      encodeComplaint = (\<lambda>c. Inr (Deal_Commitments c))\<rparr>"

definition exValidator :: "nat \<Rightarrow> Validator" where
  "exValidator k = \<lparr>Address = [k], VotingPower = 1\<rparr>"

definition exDealer :: "ValidatorSet \<Rightarrow> exInstance option \<Rightarrow> (exInstance, nat) DKGDealer" where
  "exDealer vs i =
     \<lparr>validators = vs, addrBytes = [7], participantID = 0, roundID = 1,
      sent = [], fired = [], pubKey = Some 11, secKey = Some 5,
      suiteG1 = Some (), suiteG2 = Some (), instance = i, transitions = [],
      pubKeys = [], deals = [], responses = [], justifications = [], commits = [],
      complaints = [], reconstructCommits = [], losers = []\<rparr>"

definition exFive :: ValidatorSet where
  "exFive = map exValidator [1, 2, 3, 4, 5]"

definition exFinished :: exInstance where
  "exFinished =
     \<lparr>ex_threshold = 3, ex_certified = True, ex_finished = True,
      ex_qual = [0, 1, 2, 3, 4], ex_complain = []\<rparr>"

text \<open>Three validators have sent their keys and empty justifications; QUAL lacks index 2.\<close>

definition exPhase1 :: "(exInstance, nat) DKGDealer" where
  "exPhase1 =
     (exDealer (map exValidator [1, 2, 3])
        (Some \<lparr>ex_threshold = 2, ex_certified = True, ex_finished = False,
               ex_qual = [0, 1], ex_complain = []\<rparr>))
     \<lparr>pubKeys := [\<lparr>pk_Addr = [1], PK = 21\<rparr>, \<lparr>pk_Addr = [2], PK = 22\<rparr>,
                  \<lparr>pk_Addr = [3], PK = 23\<rparr>],
      justifications := [(''01'', None), (''02'', None), (''03'', None)]\<rparr>"

text \<open>
  Two commits bundles are in, QUAL has two members; the library complains about the
  bundles whose index is in \<open>complain\<close>.
\<close>

definition exPhase2 :: "int list \<Rightarrow> (exInstance, nat) DKGDealer" where
  "exPhase2 complain =
     (exDealer (map exValidator [1, 2])
        (Some \<lparr>ex_threshold = 1, ex_certified = True, ex_finished = False,
               ex_qual = [0, 1], ex_complain = complain\<rparr>))
     \<lparr>commits := [\<lparr>sc_Index = 0, Commitments = [31]\<rparr>, \<lparr>sc_Index = 1, Commitments = [32]\<rparr>]\<rparr>"

text \<open>
  Closures for a queue over naturals: \<open>0\<close> is not ready, \<open>9\<close> is ready and fails, any
  other is ready, succeeds and sends a message that carries its number.
\<close>

definition exRun :: "nat \<Rightarrow> (exInstance, nat) DKGDealer \<Rightarrow> (exInstance, nat) transition_result" where
  "exRun k d =
     (if k = 0 then Return ((None, False), d)
      else if k = 9 then Return ((Some ''abort'', True), d)
      else Return ((None, True), SendMsgCb (DKGData0 DKGPubKey (int k) []) d))"

text \<open>
  A small stand-in for the collaborators of the consensus state.  A vote set is its
  two-thirds majority, if any; a block hashes to its content; a part set has its header
  and the number of parts received; the block with content \<open>[66]\<close> is invalid; the
  verifier \<open>True\<close> signs and recovers, the verifier \<open>False\<close> fails to; a vote with
  signature \<open>[66]\<close> conflicts with an earlier one; the recovered random data is the
  previous one followed by \<open>2\<close>, and only that verifies; the step routines outside
  the model do nothing.
\<close>

record exVotes =
  ex_prevotes :: "BlockID option"
  ex_precommits :: "BlockID option"
  ex_pol :: int

definition exEnv :: "(exVotes, BlockID option, bool) env" where
  "exEnv =
     \<lparr>Prevotes = (\<lambda>h r. ex_prevotes h),
      Precommits = (\<lambda>h r. ex_precommits h),
      POLInfo = (\<lambda>h. (ex_pol h, \<lparr>Hash = [], PartsHeader = emptyPartSetHeader\<rparr>)),
      Votes_AddVote = (\<lambda>h v p.
         (if Signature v = [66]
          then (False, Some (ErrVoteConflictingVotes \<lparr>VoteA = v, VoteB = v\<rparr>))
          else (True, None), h)),
      TwoThirdsMajority = (\<lambda>vs. vs),
      HasTwoThirdsAny = (\<lambda>vs. vs \<noteq> None),
      HasAll = (\<lambda>vs. False),
      GetVotes = (\<lambda>vs. []),
      VoteSet_AddVote = (\<lambda>vs v.
         (if Signature v = [66]
          then (False, Some (ErrVoteConflictingVotes \<lparr>VoteA = v, VoteB = v\<rparr>))
          else (True, None), vs)),
      HashesTo = (\<lambda>b h. case b of None \<Rightarrow> False | Some b \<Rightarrow> h \<noteq> [] \<and> block_content b = h),
      SetRandomData = (\<lambda>d b. b\<lparr>RandomData := d\<rparr>),
      HasHeader = (\<lambda>ps h. case ps of None \<Rightarrow> False | Some ps \<Rightarrow> ps_header ps = h),
      NewPartSetFromHeader = (\<lambda>h. \<lparr>ps_header = h, ps_count = 0\<rparr>),
      ValidateBlock = (\<lambda>b. case b of None \<Rightarrow> Some ''nil block''
         | Some b \<Rightarrow> if block_content b = [66] then Some ''invalid'' else None),
      LoadBlock = (\<lambda>h. Some \<lparr>RandomData = [1], block_content = []\<rparr>),
      InitialRandomData = [0],
      Sign = (\<lambda>ver d. if ver then (d @ [1], None) else ([], Some ''no share'')),
      Recover = (\<lambda>ver d votes. if ver then Inr (d @ [2]) else Inl ''too few shares''),
      VerifyRandomShare = (\<lambda>ver a d sig. if sig = d @ [1] then None else Some ''bad share''),
      VerifyRandomData = (\<lambda>ver d new. if new = d @ [2] then None else Some ''not a signature''),
      SignData = (\<lambda>v. (None, v\<lparr>Signature := [9]\<rparr>)),
      voteTime = (\<lambda>cs. 0),
      now = 100,
      isProposalComplete = (\<lambda>cs. ProposalBlock cs \<noteq> None),
      enterNewRound = (\<lambda>h r cs. Done cs),
      enterPrevote = (\<lambda>h r cs. Done cs),
      enterPrevoteWait = (\<lambda>h r cs. Done cs),
      enterPrecommitWait = (\<lambda>h r cs. Done cs),
      commitBlock = (\<lambda>h cs. Done cs)\<rparr>"

definition exHeader :: "nat \<Rightarrow> PartSetHeader" where
  "exHeader k = \<lparr>Total = 2, psh_Hash = [k]\<rparr>"

definition exBlockID :: "nat \<Rightarrow> BlockID" where
  "exBlockID k = \<lparr>Hash = [k], PartsHeader = exHeader k\<rparr>"

text \<open>
  Height 5, round 0, step Prevote; the node is validator \<open>[1]\<close> and holds block
  \<open>[7]\<close> as its proposal.
\<close>

definition exState :: "(exVotes, BlockID option, bool) BLSConsensusState" where
  "exState =
     \<lparr>Height = 5, Round = 0, Step = RoundStepPrevote, CommitTime = 0,
      Validators = exFive, Proposal = None,
      ProposalBlock = Some 0, ProposalBlockParts = Some \<lparr>ps_header = exHeader 7, ps_count = 2\<rparr>,
      LockedRound = - 1, LockedBlock = None, LockedBlockParts = None,
      ValidRound = - 1, ValidBlock = None, ValidBlockParts = None,
      Votes = \<lparr>ex_prevotes = None, ex_precommits = None, ex_pol = 0\<rparr>,
      CommitRound = - 1, LastCommit = None, TriggeredTimeoutPrecommit = False,
      blocks = [\<lparr>RandomData = [], block_content = [7]\<rparr>],
      SkipTimeoutCommit = False, privValidator = Some [1], dkgVerifier = Some True,
      effects = []\<rparr>"


definition votedFor :: "('hvs, 'vs, 'ver) BLSConsensusState \<Rightarrow> (SignedMsgType \<times> BlockID) list" where
  "votedFor cs =
     List.map_filter
       (\<lambda>e. case e of SendInternalVote v \<Rightarrow> Some (vote_Type v, vote_BlockID v) | _ \<Rightarrow> None)
       (effects cs)"

definition exPolka :: "BlockID option \<Rightarrow> (exVotes, BlockID option, bool) BLSConsensusState" where
  "exPolka b = exState\<lparr>Votes := \<lparr>ex_prevotes = b, ex_precommits = None, ex_pol = 0\<rparr>\<rparr>"

definition exCommitting :: "BlockID \<Rightarrow> (exVotes, BlockID option, bool) BLSConsensusState" where
  "exCommitting b =
     exState\<lparr>Step := RoundStepPrecommit,
             Votes := \<lparr>ex_prevotes = Some b, ex_precommits = Some b, ex_pol = 0\<rparr>,
             dkgVerifier := Some False\<rparr>"

definition exLocked :: "(exVotes, BlockID option, bool) BLSConsensusState
   \<Rightarrow> (exVotes, BlockID option, bool) BLSConsensusState" where
  "exLocked cs = cs\<lparr>LockedRound := 0, LockedBlock := Some 0,
      LockedBlockParts := Some \<lparr>ps_header = exHeader 7, ps_count = 2\<rparr>\<rparr>"

definition nilBlockID :: BlockID where
  "nilBlockID = \<lparr>Hash = [], PartsHeader = emptyPartSetHeader\<rparr>"

definition exVote :: "SignedMsgType \<Rightarrow> int64 \<Rightarrow> address \<Rightarrow> bytes \<Rightarrow> Vote" where
  "exVote ty h a sig =
     \<lparr>vote_Type = ty, vote_Height = h, vote_Round = 0, vote_BlockID = exBlockID 7,
      Timestamp = 0, ValidatorAddress = a, ValidatorIndex = 1, Signature = sig,
      BLSSignature = [1, 1]\<rparr>"

definition outcomeOf ::
  "(('hvs, 'vs, 'ver) BLSConsensusState, ('hvs, 'vs, 'ver) BLSConsensusState) exec
     \<Rightarrow> bool \<times> (SignedMsgType \<times> BlockID) list \<times> int \<times> blockRef option \<times> PartSet option" where
  "outcomeOf r =
     (case r of
        Done s \<Rightarrow> (True, votedFor s, LockedRound s, LockedBlock s, ProposalBlockParts s)
      | Panicked m s \<Rightarrow> (False, votedFor s, LockedRound s, LockedBlock s, ProposalBlockParts s))"

definition exConflict :: "address \<Rightarrow> DuplicateVoteEvidence" where
  "exConflict a = \<lparr>VoteA = exVote PrecommitType 5 a [66], VoteB = exVote PrecommitType 5 a [66]\<rparr>"

definition exInvalid :: "(exVotes, BlockID option, bool) BLSConsensusState" where
  "exInvalid = (exPolka (Some (exBlockID 66)))\<lparr>blocks := [\<lparr>RandomData = [], block_content = [66]\<rparr>]\<rparr>"

definition exPartial :: "(exVotes, BlockID option, bool) BLSConsensusState" where
  "exPartial = (exPolka (Some (exBlockID 8)))
     \<lparr>ProposalBlock := None, ProposalBlockParts := Some \<lparr>ps_header = exHeader 8, ps_count = 1\<rparr>\<rparr>"

text \<open>
  A dealer of two validators that has both public keys, out of order, and a fresh queue.
\<close>

definition exStart :: "(exInstance, Transition) DKGDealer" where
  "exStart = GenerateTransitions
     \<lparr>validators = map exValidator [1, 2], addrBytes = [1], participantID = 0, roundID = 1,
      sent = [], fired = [], pubKey = Some 11, secKey = Some 5,
      suiteG1 = Some (), suiteG2 = Some (), instance = None, transitions = [],
      pubKeys = [\<lparr>pk_Addr = [2], PK = 22\<rparr>, \<lparr>pk_Addr = [1], PK = 21\<rparr>],
      deals = [], responses = [], justifications = [], commits = [],
      complaints = [], reconstructCommits = [], losers = []\<rparr>"

text \<open>The dealer as a returning call of \<open>Transit\<close> leaves it.\<close>

definition afterTransit ::
  "'i dkglib \<Rightarrow> ('i, Transition) DKGDealer \<Rightarrow> ('i, Transition) DKGDealer" where
  "afterTransit lib d =
     (case Transit (runTransition lib) d of
        Some (Return (err, d')) \<Rightarrow> d'
      | _ \<Rightarrow> d)"

text \<open>
  A library whose key generator certifies with the first two participants qualified,
  and a round of three validators under it that fails in Phase I: the dealer is built
  and started, receives the three keys, two deals, four responses and three empty justifications,
  with \<open>Transit\<close> after each batch, and \<open>ProcessJustifications\<close> ends with the error
  of \<open>GetCommits\<close>.
\<close>

definition exLibQ :: "exInstance dkglib" where
  "exLibQ = exLib\<lparr>NewDistKeyGenerator := (\<lambda>sk pks th.
      Inr \<lparr>ex_threshold = th, ex_certified = True, ex_finished = False,
           ex_qual = [0, 1], ex_complain = []\<rparr>)\<rparr>"

definition exRound :: "(exInstance, Transition) DKGDealer" where
  "exRound =
     (let d0 = NewDKGDealer (map exValidator [1, 2, 3]) [1];
          d1 = GenerateTransitions
                 (d0\<lparr>roundID := roundID d0 + 1, secKey := Some 5, pubKey := Some 11\<rparr>);
          d2 = afterTransit exLibQ
                 (d1\<lparr>pubKeys := fold Add [\<lparr>pk_Addr = [3], PK = 23\<rparr>, \<lparr>pk_Addr = [1], PK = 21\<rparr>,
                                          \<lparr>pk_Addr = [2], PK = 22\<rparr>] (pubKeys d1)\<rparr>);
          d3 = afterTransit exLibQ
                 (d2\<lparr>deals := deals d2 @ [(''02'', \<lparr>deal_Index = 1, deal_payload = [4]\<rparr>),
                                           (''03'', \<lparr>deal_Index = 2, deal_payload = [5]\<rparr>)]\<rparr>);
          d4 = afterTransit exLibQ
                 (d3\<lparr>responses := responses d3
                        @ [\<lparr>resp_Index = 1, Response_Index = 0, Approved = True\<rparr>,
                           \<lparr>resp_Index = 2, Response_Index = 0, Approved = True\<rparr>,
                           \<lparr>resp_Index = 1, Response_Index = 2, Approved = True\<rparr>,
                           \<lparr>resp_Index = 2, Response_Index = 1, Approved = True\<rparr>]\<rparr>)
      in afterTransit exLibQ
           (d4\<lparr>justifications := justifications d4
                   @ [(''01'', None), (''02'', None), (''03'', None)]\<rparr>))"

section \<open>Properties of the dealer\<close>

subsection \<open>Thresholds\<close>

lemma GetVerifier_parameters:
  "GetVerifier lib d = Inr v \<Longrightarrow>
     bls_t v = (Size (validators d) div 3) * 2 \<and> bls_n v = Size (validators d)"
  by (auto simp: GetVerifier_def split: option.splits if_splits sum.splits)

lemma thresholds_below_size:
  "vs \<noteq> [] \<Longrightarrow> (Size vs * 2) div 3 < Size vs \<and> (Size vs div 3) * 2 < Size vs"
  by (cases vs) (auto simp: Size_def)

lemma thresholds_differ:
  "((Size vs div 3) * 2 = (Size vs * 2) div 3) = (Size vs mod 3 \<noteq> 2)"
  unfolding Size_def by presburger

text \<open>
  C2.  The claim: for every size \<open>n \<ge> 1\<close> of the validator set, the threshold is
  \<open>\<lfloor>2n/3\<rfloor>\<close> both where \<open>GetDeals\<close> builds the key generator and in the \<open>(t, n)\<close> of
  the verifier \<open>GetVerifier\<close> returns.  \<open>GetDeals\<close> computes \<open>(n * 2) / 3\<close>, but
  \<open>GetVerifier\<close> computes \<open>(n / 3) * 2\<close>: with five validators the generator is built
  with threshold 3 and the verifier of the same dealer gets \<open>t = 2\<close>.
\<close>

theorem GetVerifier_threshold_five:
  "map_option ex_threshold (instance (snd (GetDeals exLib (exDealer exFive None)))) = Some 3
   \<and> map_sum id (\<lambda>v. (bls_t v, bls_n v)) (GetVerifier exLib (exDealer exFive (Some exFinished)))
       = Inr (2, 5)"
  by (simp add: GetDeals_def GetVerifier_def exLib_def exDealer_def exFinished_def exFive_def
      Size_def)

subsection \<open>The transition queue\<close>

lemma Transit_from_queue:
  assumes "keepsQueue run"
  shows "transitions d = q \<Longrightarrow>
    (case Transit_spec run q d of
       Panic m \<Rightarrow> Transit run d = Some (Panic m)
     | Return (e, q', d') \<Rightarrow> Transit run d = Some (Return (e, d')) \<and> transitions d' = q')"
proof (induction q arbitrary: d)
  case Nil
  then show ?case by (subst Transit.simps) simp
next
  case (Cons tn rest)
  show ?case
  proof (cases "run tn d")
    case (Panic m)
    with Cons.prems show ?thesis by (subst Transit.simps) simp
  next
    case (Return x)
    obtain err ready d1 where x: "x = ((err, ready), d1)"
      by (metis prod.exhaust)
    from assms Return x Cons.prems have q1: "transitions d1 = tn # rest"
      by (auto simp: keepsQueue_def)
    have rec: "case Transit_spec run rest (d1\<lparr>transitions := rest\<rparr>) of
                 Panic m \<Rightarrow> Transit run (d1\<lparr>transitions := rest\<rparr>) = Some (Panic m)
               | Return (e, q', d') \<Rightarrow>
                   Transit run (d1\<lparr>transitions := rest\<rparr>) = Some (Return (e, d'))
                   \<and> transitions d' = q'"
      by (rule Cons.IH) simp
    show ?thesis
    proof (cases "ready \<and> err = None")
      case True
      then have "Transit run d = Transit run (d1\<lparr>transitions := rest\<rparr>)"
        using Cons.prems Return x q1 by (subst Transit.simps) simp
      with True rec Return x show ?thesis by (auto split: outcome.splits)
    next
      case False
      then show ?thesis
        using Cons.prems Return x q1 by (subst Transit.simps) auto
    qed
  qed
qed

text \<open>
  The seven transitions of the dealer leave \<open>d.transitions\<close> alone.
\<close>

lemma transitions_fold_SendMsgCb [simp]: "transitions (fold SendMsgCb ms d) = transitions d"
  by (induction ms arbitrary: d) (simp_all add: SendMsgCb_def)

lemma transitions_FireEvent [simp]: "transitions (FireEvent ev arg d) = transitions d"
  by (simp add: FireEvent_def)

lemma transitions_SendMsgCb [simp]: "transitions (SendMsgCb m d) = transitions d"
  by (simp add: SendMsgCb_def)

lemma GetDeals_transitions: "GetDeals lib d = (r, d') \<Longrightarrow> transitions d' = transitions d"
  by (auto simp: GetDeals_def Let_def split: sum.splits prod.splits list.splits)

lemma SendDeals_transitions:
  "SendDeals lib d = Return (r, d') \<Longrightarrow> transitions d' = transitions d"
  by (auto simp: SendDeals_def Let_def split: if_splits prod.splits dest!: GetDeals_transitions)

lemma ProcessDeals_transitions:
  "ProcessDeals lib d = Return (r, d') \<Longrightarrow> transitions d' = transitions d"
  by (auto simp: ProcessDeals_def GetResponses_def
      split: if_splits prod.splits outcome.splits option.splits)

lemma ProcessResponses_transitions:
  "ProcessResponses lib d = Return (r, d') \<Longrightarrow> transitions d' = transitions d"
  by (auto simp: ProcessResponses_def GetJustifications_def
      split: if_splits prod.splits outcome.splits option.splits)

lemma ProcessJustifications_transitions:
  "ProcessJustifications lib d = Return (r, d') \<Longrightarrow> transitions d' = transitions d"
  by (auto simp: ProcessJustifications_def GetCommits_def
      split: if_splits prod.splits outcome.splits option.splits sum.splits)

lemma ProcessCommits_transitions:
  "ProcessCommits lib d = Return (r, d') \<Longrightarrow> transitions d' = transitions d"
  by (auto simp: ProcessCommits_def Let_def
      split: if_splits prod.splits outcome.splits option.splits sum.splits)

lemma processComplaintsLoop_transitions:
  "processComplaintsLoop lib cs i d = (e, i', d') \<Longrightarrow> transitions d' = transitions d"
  by (induction lib cs i d rule: processComplaintsLoop.induct)
     (auto split: prod.splits sum.splits option.splits)

lemma ProcessComplaints_transitions:
  "ProcessComplaints lib d = Return (r, d') \<Longrightarrow> transitions d' = transitions d"
  by (auto simp: ProcessComplaints_def
      split: if_splits prod.splits option.splits dest!: processComplaintsLoop_transitions)

lemma ProcessReconstructCommits_transitions:
  "ProcessReconstructCommits lib d = Return (r, d') \<Longrightarrow> transitions d' = transitions d"
  by (auto simp: ProcessReconstructCommits_def Let_def
      split: if_splits prod.splits option.splits)

lemma runTransition_keepsQueue: "keepsQueue (runTransition lib)"
  unfolding keepsQueue_def
proof (intro allI impI)
  fix tn d r d1 assume "runTransition lib tn d = Return (r, d1)"
  then show "transitions d1 = transitions d"
    by (cases tn)
       (auto dest: SendDeals_transitions ProcessDeals_transitions ProcessResponses_transitions
          ProcessJustifications_transitions ProcessCommits_transitions
          ProcessComplaints_transitions ProcessReconstructCommits_transitions)
qed

text \<open>
  C4.  For every queue of transitions that leave the queue itself alone, \<open>Transit\<close>
  returns, and does what the specification says: it runs the transitions from the head
  in queue order; a head that is not ready ends the call without error and stays in the
  queue; a head that is ready without error is removed and the next one is tried; a
  head that is ready with an error ends the call with that error and stays in the queue.
\<close>

theorem Transit_in_queue_order:
  assumes "keepsQueue run"
  shows "case Transit_spec run (transitions d) d of
           Panic m \<Rightarrow> Transit run d = Some (Panic m)
         | Return (e, q', d') \<Rightarrow> Transit run d = Some (Return (e, d')) \<and> transitions d' = q'"
  using Transit_from_queue [OF assms, of d "transitions d"] by simp

lemma exRun_keepsQueue: "keepsQueue exRun"
  by (auto simp: keepsQueue_def exRun_def SendMsgCb_def split: if_splits)

theorem Transit_in_queue_order_witness:
  "keepsQueue exRun
   \<and> Transit exRun ((exDealer [] None)\<lparr>transitions := [1, 2, 0, 3]\<rparr>)
       = Some (Return (None, (exDealer [] None)
           \<lparr>sent := [DKGData0 DKGPubKey 1 [], DKGData0 DKGPubKey 2 []],
            transitions := [0, 3]\<rparr>))
   \<and> Transit exRun ((exDealer [] None)\<lparr>transitions := [1, 9, 3]\<rparr>)
       = Some (Return (Some ''abort'', (exDealer [] None)
           \<lparr>sent := [DKGData0 DKGPubKey 1 []], transitions := [9, 3]\<rparr>))
   \<and> keepsQueue (runTransition exLib)
   \<and> (case Transit (runTransition exLib) exStart of
         Some (Return (e, d')) \<Rightarrow>
           (e, transitions d', fired d', pubKeys d', map_option ex_threshold (instance d'))
       | _ \<Rightarrow> (Some ''no result'', [], [], [], None))
       = (None,
          [T_ProcessDeals, T_ProcessResponses, T_ProcessJustifications,
           T_ProcessCommits, T_ProcessComplaints, T_ProcessReconstructCommits],
          [(EventDKGPubKeyReceived, None)],
          [\<lparr>pk_Addr = [1], PK = 21\<rparr>, \<lparr>pk_Addr = [2], PK = 22\<rparr>], Some 1)"
  using
    Transit_in_queue_order [OF exRun_keepsQueue,
      of "(exDealer [] None)\<lparr>transitions := [1, 2, 0, 3]\<rparr>"]
    Transit_in_queue_order [OF exRun_keepsQueue,
      of "(exDealer [] None)\<lparr>transitions := [1, 9, 3]\<rparr>"]
    Transit_in_queue_order [OF runTransition_keepsQueue, of exLib exStart]
    exRun_keepsQueue runTransition_keepsQueue
  by (simp add: exRun_def exDealer_def SendMsgCb_def
      exStart_def GenerateTransitions_def SendDeals_def IsReady_def GetDeals_def
      ProcessDeals_def IsDealsReady_def FireEvent_def GetPKs_def
      exLib_def exValidator_def Size_def split: outcome.splits prod.splits)

subsection \<open>Resetting the round data\<close>

text \<open>
  No method of the dealer changes \<open>d.losers\<close> of the dealer it is called on: the one
  assignment, in \<open>GetCommits\<close>, is made to the copy.
\<close>

lemma GetCommits_keeps_losers:
  "GetCommits lib d = Return (r, d') \<Longrightarrow> losers d' = losers d"
  by (auto simp: GetCommits_def split: outcome.splits)

lemma losers_fold_SendMsgCb [simp]: "losers (fold SendMsgCb ms d) = losers d"
  by (induction ms arbitrary: d) (simp_all add: SendMsgCb_def)

lemma GetDeals_losers: "GetDeals lib d = (r, d') \<Longrightarrow> losers d' = losers d"
  by (auto simp: GetDeals_def Let_def split: sum.splits prod.splits list.splits)

lemma GetResponses_losers: "GetResponses lib d = Return (r, d') \<Longrightarrow> losers d' = losers d"
  by (auto simp: GetResponses_def FireEvent_def split: prod.splits outcome.splits option.splits)

lemma GetJustifications_losers:
  "GetJustifications lib d = Return (r, d') \<Longrightarrow> losers d' = losers d"
  by (auto simp: GetJustifications_def FireEvent_def
      split: prod.splits outcome.splits option.splits)

lemma SendDeals_losers: "SendDeals lib d = Return (r, d') \<Longrightarrow> losers d' = losers d"
  by (auto simp: SendDeals_def Let_def FireEvent_def split: if_splits prod.splits
      dest!: GetDeals_losers)

lemma ProcessDeals_losers: "ProcessDeals lib d = Return (r, d') \<Longrightarrow> losers d' = losers d"
  by (auto simp: ProcessDeals_def split: if_splits prod.splits outcome.splits
      dest!: GetResponses_losers)

lemma ProcessResponses_losers:
  "ProcessResponses lib d = Return (r, d') \<Longrightarrow> losers d' = losers d"
  by (auto simp: ProcessResponses_def split: if_splits prod.splits outcome.splits
      dest!: GetJustifications_losers)

lemma ProcessJustifications_losers:
  "ProcessJustifications lib d = Return (r, d') \<Longrightarrow> losers d' = losers d"
  by (auto simp: ProcessJustifications_def SendMsgCb_def
      split: if_splits prod.splits outcome.splits sum.splits
      dest!: GetCommits_keeps_losers)

lemma ProcessCommits_losers:
  "ProcessCommits lib d = Return (r, d') \<Longrightarrow> losers d' = losers d"
  by (auto simp: ProcessCommits_def Let_def FireEvent_def
      split: if_splits prod.splits outcome.splits option.splits sum.splits)

lemma processComplaintsLoop_losers:
  "processComplaintsLoop lib cs i d = (e, i', d') \<Longrightarrow> losers d' = losers d"
  by (induction lib cs i d rule: processComplaintsLoop.induct)
     (auto simp: SendMsgCb_def split: prod.splits sum.splits option.splits)

lemma ProcessComplaints_losers:
  "ProcessComplaints lib d = Return (r, d') \<Longrightarrow> losers d' = losers d"
  by (auto simp: ProcessComplaints_def FireEvent_def
      split: if_splits prod.splits option.splits dest!: processComplaintsLoop_losers)

lemma ProcessReconstructCommits_losers:
  "ProcessReconstructCommits lib d = Return (r, d') \<Longrightarrow> losers d' = losers d"
  by (auto simp: ProcessReconstructCommits_def Let_def FireEvent_def
      split: if_splits prod.splits option.splits)

lemma runTransition_losers:
  "runTransition lib tn d = Return (r, d') \<Longrightarrow> losers d' = losers d"
  by (cases tn)
     (auto dest: SendDeals_losers ProcessDeals_losers ProcessResponses_losers
        ProcessJustifications_losers ProcessCommits_losers ProcessComplaints_losers
        ProcessReconstructCommits_losers)

lemma Transit_spec_losers:
  "Transit_spec (runTransition lib) q d = Return (e, q', d') \<Longrightarrow> losers d' = losers d"
proof (induction q arbitrary: d)
  case Nil
  then show ?case by simp
next
  case (Cons tn rest)
  show ?case
  proof (cases "runTransition lib tn d")
    case (Panic m)
    with Cons.prems show ?thesis by simp
  next
    case (Return x)
    obtain err ready d1 where x: "x = ((err, ready), d1)"
      by (metis prod.exhaust)
    have l: "losers d1 = losers d"
      using Return x by (auto dest: runTransition_losers)
    show ?thesis
    proof (cases "ready \<and> err = None")
      case True
      then have "Transit_spec (runTransition lib) rest (d1\<lparr>transitions := rest\<rparr>)
                   = Return (e, q', d')"
        using Cons.prems Return x by simp
      from Cons.IH [OF this] l show ?thesis by simp
    next
      case False
      then show ?thesis using Cons.prems Return x l by (auto split: if_splits)
    qed
  qed
qed

lemma Transit_runTransition:
  "Transit (runTransition lib) d =
     Some (case Transit_spec (runTransition lib) (transitions d) d of
             Panic m \<Rightarrow> Panic m
           | Return (e, q', d') \<Rightarrow> Return (e, d'))"
  using Transit_from_queue [OF runTransition_keepsQueue, of d "transitions d" lib]
  by (auto split: outcome.splits)

lemma Transit_losers:
  "Transit (runTransition lib) d = Some (Return (e, d')) \<Longrightarrow> losers d' = losers d"
  by (auto simp: Transit_runTransition split: outcome.splits dest: Transit_spec_losers)

lemma reachable_losers: "reachable lib d \<Longrightarrow> losers d = []"
proof (induction rule: reachable.induct)
  case (new vals addr)
  show ?case by (simp add: NewDKGDealer_def)
next
  case (transit d err d')
  then show ?case by (auto dest: Transit_losers)
next
  case (transition d tn r d')
  then show ?case by (auto dest: runTransition_losers)
next
  case (getDeals d msgs d')
  then show ?case by (auto dest: GetDeals_losers)
next
  case (getResponses d msgs d')
  then show ?case by (auto dest: GetResponses_losers)
next
  case (getJustifications d msgs d')
  then show ?case by (auto dest: GetJustifications_losers)
next
  case (getCommits d cs d')
  then show ?case by (auto dest: GetCommits_keeps_losers)
qed (simp_all add: GenerateTransitions_def ResetDKGData_def SetTransitions_def SendMsgCb_def
    FireEvent_def)

lemma reachable_afterTransit: "reachable lib d \<Longrightarrow> reachable lib (afterTransit lib d)"
  by (auto simp: afterTransit_def split: option.splits outcome.splits intro: reachable.transit)

lemma reachable_pubKeys:
  "reachable lib d \<Longrightarrow> reachable lib (d\<lparr>pubKeys := fold Add pks (pubKeys d)\<rparr>)"
proof (induction pks arbitrary: d)
  case Nil
  then show ?case by simp
next
  case (Cons pk pks)
  from Cons.IH [OF reachable.storePubKey [OF Cons.prems, of pk]] show ?case by simp
qed

lemma reachable_deals: "reachable lib d \<Longrightarrow> reachable lib (d\<lparr>deals := deals d @ xs\<rparr>)"
proof (induction xs arbitrary: d)
  case Nil
  then show ?case by simp
next
  case (Cons x xs)
  obtain a dl where x: "x = (a, dl)" by (cases x)
  from Cons.IH [OF reachable.storeDeal [OF Cons.prems, of a dl]] x show ?case by simp
qed

lemma reachable_responses:
  "reachable lib d \<Longrightarrow> reachable lib (d\<lparr>responses := responses d @ xs\<rparr>)"
proof (induction xs arbitrary: d)
  case Nil
  then show ?case by simp
next
  case (Cons x xs)
  from Cons.IH [OF reachable.storeResponse [OF Cons.prems, of x]] show ?case by simp
qed

lemma reachable_justifications:
  "reachable lib d \<Longrightarrow> reachable lib (d\<lparr>justifications := justifications d @ xs\<rparr>)"
proof (induction xs arbitrary: d)
  case Nil
  then show ?case by simp
next
  case (Cons x xs)
  obtain a j where x: "x = (a, j)" by (cases x)
  from Cons.IH [OF reachable.storeJustification [OF Cons.prems, of a j]] x show ?case by simp
qed

text \<open>
  C5.  After \<open>ResetDKGData\<close> returns, on every dealer that \<open>NewDKGDealer\<close> and the
  methods of the dealer produce, the key pair, the suites, the DKG instance, the
  transition queue, the public-key store, the deals, responses, justifications, commits,
  complaints, reconstruct-commits and the losers list hold nothing of the previous
  round.  \<open>ResetDKGData\<close> assigns nil to each of them but \<open>losers\<close>, and \<open>losers\<close>
  is nil in every such dealer.
\<close>

theorem ResetDKGData_clears_round_data:
  assumes "reachable lib d"
  shows "pubKey (ResetDKGData d) = None \<and> secKey (ResetDKGData d) = None
         \<and> suiteG1 (ResetDKGData d) = None \<and> suiteG2 (ResetDKGData d) = None
         \<and> instance (ResetDKGData d) = None \<and> transitions (ResetDKGData d) = []
         \<and> pubKeys (ResetDKGData d) = [] \<and> deals (ResetDKGData d) = []
         \<and> responses (ResetDKGData d) = [] \<and> justifications (ResetDKGData d) = []
         \<and> commits (ResetDKGData d) = [] \<and> complaints (ResetDKGData d) = []
         \<and> reconstructCommits (ResetDKGData d) = []
         \<and> losers (ResetDKGData d) = [] \<and> GetLosers (ResetDKGData d) = []"
  using reachable_losers [OF assms] by (simp add: ResetDKGData_def GetLosers_def)


theorem ResetDKGData_clears_round_data_witness:
  "reachable exLibQ exRound
   \<and> transitions exRound
     = [T_ProcessJustifications, T_ProcessCommits, T_ProcessComplaints,
        T_ProcessReconstructCommits]
   \<and> pubKeys exRound
     = [\<lparr>pk_Addr = [1], PK = 21\<rparr>, \<lparr>pk_Addr = [2], PK = 22\<rparr>, \<lparr>pk_Addr = [3], PK = 23\<rparr>]
   \<and> instance exRound
     = Some \<lparr>ex_threshold = 2, ex_certified = True, ex_finished = False,
             ex_qual = [0, 1], ex_complain = []\<rparr>
   \<and> length (deals exRound) = 2 \<and> length (responses exRound) = 4
   \<and> length (justifications exRound) = 3
   \<and> pubKey exRound = Some 11 \<and> secKey exRound = Some 5
   \<and> (case GetCommits_body exLibQ exRound of
        Return (r, dcopy) \<Rightarrow> (r, losers dcopy)
      | Panic m \<Rightarrow> (Inl m, []))
     = (Inl ''some of participants failed to complete phase I'', [[3]])
   \<and> losers exRound = []
   \<and> pubKey (ResetDKGData exRound) = None \<and> secKey (ResetDKGData exRound) = None
   \<and> suiteG1 (ResetDKGData exRound) = None \<and> suiteG2 (ResetDKGData exRound) = None
   \<and> instance (ResetDKGData exRound) = None \<and> transitions (ResetDKGData exRound) = []
   \<and> pubKeys (ResetDKGData exRound) = [] \<and> deals (ResetDKGData exRound) = []
   \<and> responses (ResetDKGData exRound) = [] \<and> justifications (ResetDKGData exRound) = []
   \<and> commits (ResetDKGData exRound) = [] \<and> complaints (ResetDKGData exRound) = []
   \<and> reconstructCommits (ResetDKGData exRound) = []
   \<and> losers (ResetDKGData exRound) = [] \<and> GetLosers (ResetDKGData exRound) = []"
proof -
  have r: "reachable exLibQ exRound"
    unfolding exRound_def Let_def
    by (intro reachable_afterTransit reachable_justifications reachable_responses
        reachable_deals reachable_pubKeys reachable.generate reachable.startPubKey
        reachable.startSecKey reachable.startRound reachable.new)
  have s: "transitions exRound
     = [T_ProcessJustifications, T_ProcessCommits, T_ProcessComplaints,
        T_ProcessReconstructCommits]
   \<and> pubKeys exRound
     = [\<lparr>pk_Addr = [1], PK = 21\<rparr>, \<lparr>pk_Addr = [2], PK = 22\<rparr>, \<lparr>pk_Addr = [3], PK = 23\<rparr>]
   \<and> instance exRound
     = Some \<lparr>ex_threshold = 2, ex_certified = True, ex_finished = False,
             ex_qual = [0, 1], ex_complain = []\<rparr>
   \<and> length (deals exRound) = 2 \<and> length (responses exRound) = 4
   \<and> justifications exRound = [(''01'', None), (''02'', None), (''03'', None)]
   \<and> pubKey exRound = Some 11 \<and> secKey exRound = Some 5
   \<and> validators exRound = map exValidator [1, 2, 3] \<and> losers exRound = []"
    by (simp add: exRound_def Let_def afterTransit_def Transit_runTransition NewDKGDealer_def
        Add_def GenerateTransitions_def SendDeals_def IsReady_def GetDeals_def ProcessDeals_def
        IsDealsReady_def GetResponses_def ProcessResponses_def IsResponsesReady_def
        GetJustifications_def processResponse_def ProcessJustifications_def
        IsJustificationsReady_def GetCommits_def GetCommits_body_def FireEvent_def SendMsgCb_def
        GetPKs_def DKGData0_def exLibQ_def exLib_def exValidator_def Size_def)
  have g: "(case GetCommits_body exLibQ exRound of
        Return (r, dcopy) \<Rightarrow> (r, losers dcopy)
      | Panic m \<Rightarrow> (Inl m, []))
     = (Inl ''some of participants failed to complete phase I'', [[3]])"
    using s by (simp add: GetCommits_body_def Let_def FireEvent_def exLibQ_def exLib_def
        Size_def)
  show ?thesis
    using ResetDKGData_clears_round_data [OF r] r s g by simp
qed

subsection \<open>The QUAL set and the losers\<close>

lemma appendLosers_eq:
  "appendLosers qual idx pks ls =
     ls @ map (pk_Addr \<circ> snd)
            (filter (\<lambda>(k, _). k \<notin> set qual)
               (zip (map (\<lambda>j. idx + int j) [0..<length pks]) pks))"
proof (induction pks arbitrary: idx ls)
  case Nil
  then show ?case by simp
next
  case (Cons p ps)
  have shift: "map (\<lambda>j. idx + int j) [0..<length (p # ps)]
                 = idx # map (\<lambda>j. (idx + 1) + int j) [0..<length ps]"
    by (simp add: upt_rec[of 0] map_Suc_upt[symmetric] del: upt_Suc)
  show ?case unfolding shift by (simp add: Cons.IH)
qed

text \<open>
  C6.  The claim: when QUAL has fewer members than the validator set, \<open>GetCommits\<close>
  appends the address at every index of the public-key store outside QUAL to the losers
  list and returns an error.  With three validators and QUAL \<open>{0, 1}\<close> the body does
  compute the list \<open>[[3]]\<close> and the error, but on its copy of the dealer: the dealer the
  caller holds has no loser after the call, and \<open>GetLosers\<close> gives none.
\<close>

theorem GetCommits_drops_losers:
  "(case GetCommits_body exLib exPhase1 of
      Return (r, dcopy) \<Rightarrow> (r, losers dcopy) | Panic m \<Rightarrow> (Inl m, []))
     = (Inl ''some of participants failed to complete phase I'', [[3]])
   \<and> (case GetCommits exLib exPhase1 of
        Return (r, d) \<Rightarrow> (r, losers d, GetLosers d) | Panic m \<Rightarrow> (Inl m, [], []))
     = (Inl ''some of participants failed to complete phase I'', [], [])"
  by (simp add: GetCommits_def GetCommits_body_def exPhase1_def exDealer_def exLib_def Size_def
      exValidator_def FireEvent_def GetLosers_def)

subsection \<open>Complaints\<close>

lemma sent_fold_SendMsgCb: "sent (fold SendMsgCb ms d) = sent d @ ms"
  by (induction ms arbitrary: d) (simp_all add: SendMsgCb_def)

lemma processCommitsLoop_messages:
  "processCommitsLoop lib rid a cs i fin msgs = (Inr (fin', msgs'), i') \<Longrightarrow>
     \<exists>new. msgs' = msgs @ new \<and> length new = length cs
       \<and> (\<forall>m \<in> set new. Type m = DKGComplaint \<and> RoundID m = rid \<and> Addr m = a)
       \<and> map (\<lambda>m. Data m = None) new = map (\<lambda>x. x = None) (complaintsFor lib cs i)
       \<and> (fin' = (fin \<and> (\<forall>m \<in> set new. Data m = None)))"
proof (induction cs arbitrary: i fin msgs)
  case Nil
  then show ?case by simp
next
  case (Cons c cs)
  obtain r i1 where r: "ProcessSecretCommits lib i c = (r, i1)"
    by (metis prod.exhaust)
  show ?case
  proof (cases r)
    case (Inl e)
    with Cons.prems r show ?thesis by simp
  next
    case (Inr x)
    show ?thesis
    proof (cases x)
      case None
      let ?m = "DKGData0 DKGComplaint rid a"
      from Cons.prems r Inr None
      have "processCommitsLoop lib rid a cs i1 fin (msgs @ [?m]) = (Inr (fin', msgs'), i')"
        by simp
      from Cons.IH[OF this] obtain new where
        new: "msgs' = (msgs @ [?m]) @ new" "length new = length cs"
          "\<forall>m \<in> set new. Type m = DKGComplaint \<and> RoundID m = rid \<and> Addr m = a"
          "map (\<lambda>m. Data m = None) new = map (\<lambda>x. x = None) (complaintsFor lib cs i1)"
          "fin' = (fin \<and> (\<forall>m \<in> set new. Data m = None))"
        by blast
      show ?thesis
        using new r Inr None by (intro exI[of _ "?m # new"]) (simp add: DKGData0_def)
    next
      case (Some complaint)
      show ?thesis
      proof (cases "encodeComplaint lib complaint")
        case (Inl e)
        with Cons.prems r Inr Some show ?thesis by simp
      next
        case enc: (Inr b)
        let ?m = "(DKGData0 DKGComplaint rid a)
                    \<lparr>Data := Some b, NumEntities := int (length (Deal_Commitments complaint))\<rparr>"
        from Cons.prems r Inr Some enc
        have "processCommitsLoop lib rid a cs i1 False (msgs @ [?m]) = (Inr (fin', msgs'), i')"
          by simp
        from Cons.IH[OF this] obtain new where
          new: "msgs' = (msgs @ [?m]) @ new" "length new = length cs"
            "\<forall>m \<in> set new. Type m = DKGComplaint \<and> RoundID m = rid \<and> Addr m = a"
            "map (\<lambda>m. Data m = None) new = map (\<lambda>x. x = None) (complaintsFor lib cs i1)"
            "fin' = (False \<and> (\<forall>m \<in> set new. Data m = None))"
          by blast
        show ?thesis
          using new r Inr Some by (intro exI[of _ "?m # new"]) (simp add: DKGData0_def)
      qed
    qed
  qed
qed

text \<open>
  C9, as stated: with at least \<open>|QUAL|\<close> commits collected, \<open>ProcessCommits\<close> sends one
  \<open>DKGComplaint\<close> message per bundle even when no bundle draws a complaint.  With two
  bundles, two members of QUAL and no complaint, the transition is ready and succeeds,
  and nothing is sent.
\<close>

theorem ProcessCommits_silent_without_complaint:
  "(case ProcessCommits exLib (exPhase2 []) of
      Return (r, d') \<Rightarrow> (r, sent d') | Panic m \<Rightarrow> ((Some m, False), []))
     = ((None, True), [])
   \<and> length (commits (exPhase2 [])) = 2
   \<and> map_option (\<lambda>i. length (QUAL exLib i)) (instance (exPhase2 [])) = Some 2"
  by (simp add: ProcessCommits_def exPhase2_def exDealer_def exLib_def FireEvent_def)

text \<open>
  C9, amended.  When \<open>ProcessCommits\<close> runs with at least \<open>|QUAL|\<close> commits collected
  and ends without error, it has built one \<open>DKGComplaint\<close> message per commits bundle,
  in order, with empty \<open>Data\<close> exactly for the bundles that drew no complaint; it sends
  all of them when some bundle drew a complaint, and none of them when no bundle did.
\<close>

theorem ProcessCommits_complaints:
  assumes "instance d = Some i" and "length (QUAL lib i) \<le> length (commits d)"
    and "ProcessCommits lib d = Return ((None, True), d')"
  shows "\<exists>messages. length messages = length (commits d)
           \<and> (\<forall>m \<in> set messages.
                 Type m = DKGComplaint \<and> RoundID m = roundID d \<and> Addr m = addrBytes d)
           \<and> map (\<lambda>m. Data m = None) messages
               = map (\<lambda>x. x = None) (complaintsFor lib (commits d) i)
           \<and> sent d' = sent d @ (if \<forall>m \<in> set messages. Data m = None then [] else messages)"
proof -
  obtain res i1 where
    loop: "processCommitsLoop lib (roundID d) (addrBytes d) (commits d) i True [] = (res, i1)"
    by (metis prod.exhaust)
  from assms loop obtain fin msgs where res: "res = Inr (fin, msgs)"
    by (cases res) (auto simp: ProcessCommits_def)
  from processCommitsLoop_messages[OF loop[unfolded res]] obtain new where
    new: "msgs = [] @ new" "length new = length (commits d)"
      "\<forall>m \<in> set new. Type m = DKGComplaint \<and> RoundID m = roundID d \<and> Addr m = addrBytes d"
      "map (\<lambda>m. Data m = None) new = map (\<lambda>x. x = None) (complaintsFor lib (commits d) i)"
      "fin = (True \<and> (\<forall>m \<in> set new. Data m = None))"
    by blast
  have "sent d' = sent d @ (if fin then [] else msgs)"
    using assms loop res
    by (auto simp: ProcessCommits_def FireEvent_def sent_fold_SendMsgCb Let_def
        split: if_splits)
  with new show ?thesis by (intro exI[of _ new]) simp
qed

theorem ProcessCommits_complaints_witness:
  "ProcessCommits exLib (exPhase2 [1])
     = Return ((None, True), (exPhase2 [1])
         \<lparr>sent := [DKGData0 DKGComplaint 1 [7],
                   (DKGData0 DKGComplaint 1 [7])\<lparr>Data := Some [32], NumEntities := 1\<rparr>],
          fired := [(EventDKGCommitsProcessed, Some 1)]\<rparr>)
   \<and> complaintsFor exLib (commits (exPhase2 [1]))
        \<lparr>ex_threshold = 1, ex_certified = True, ex_finished = False,
         ex_qual = [0, 1], ex_complain = [1]\<rparr>
       = [None, Some \<lparr>cc_Index = 1, Deal_Commitments = [32]\<rparr>]"
proof -
  let ?i = "\<lparr>ex_threshold = 1, ex_certified = True, ex_finished = False,
             ex_qual = [0, 1], ex_complain = [1]\<rparr>"
  let ?d' = "(exPhase2 [1])
         \<lparr>sent := [DKGData0 DKGComplaint 1 [7],
                   (DKGData0 DKGComplaint 1 [7])\<lparr>Data := Some [32], NumEntities := 1\<rparr>],
          fired := [(EventDKGCommitsProcessed, Some 1)]\<rparr>"
  have i: "instance (exPhase2 [1]) = Some ?i"
    by (simp add: exPhase2_def exDealer_def)
  have q: "length (QUAL exLib ?i) \<le> length (commits (exPhase2 [1]))"
    by (simp add: exPhase2_def exDealer_def exLib_def)
  have run: "ProcessCommits exLib (exPhase2 [1]) = Return ((None, True), ?d')"
    by (simp add: ProcessCommits_def exPhase2_def exDealer_def exLib_def FireEvent_def
        SendMsgCb_def DKGData0_def)
  show ?thesis
    using ProcessCommits_complaints [OF i q run] run
    by (simp add: exPhase2_def exDealer_def exLib_def)
qed

section \<open>Properties of the consensus state\<close>

lemmas ex_defs = exEnv_def exState_def exFive_def exValidator_def exHeader_def exBlockID_def
  exPolka_def exCommitting_def exLocked_def nilBlockID_def exVote_def emptyPartSetHeader_def
lemmas cs_defs = signAddVote_def signVote_def getPreviousBlock_def HasAddress_def emit_def
  newStep_def updateRoundStep_def blockAt_def precommit_def deferring_def andThen_def
  votedFor_def outcomeOf_def List.map_filter_def

subsection \<open>Voting without a verifier\<close>

text \<open>
  C10.  Whatever the type of the vote, prevote or precommit, \<open>signAddVote\<close> returns
  nil when \<open>cs.dkg.Verifier()\<close> is nil, and leaves the state as it was: nothing is
  signed, nothing is put on the internal message queue.
\<close>

theorem signAddVote_without_verifier:
  "dkgVerifier cs = None \<Longrightarrow> signAddVote env voteType hash header cs = Done (None, cs)"
  by (simp add: signAddVote_def split: option.splits)

theorem signAddVote_without_verifier_witness:
  "signAddVote exEnv PrevoteType [7] (exHeader 7) (exState\<lparr>dkgVerifier := None\<rparr>)
     = Done (None, exState\<lparr>dkgVerifier := None\<rparr>)
   \<and> signAddVote exEnv PrecommitType [7] (exHeader 7) (exState\<lparr>dkgVerifier := None\<rparr>)
     = Done (None, exState\<lparr>dkgVerifier := None\<rparr>)
   \<and> (case signAddVote exEnv PrevoteType [7] (exHeader 7) exState of
        Done (v, s) \<Rightarrow> votedFor s | Panicked m s \<Rightarrow> [])
     = [(PrevoteType, exBlockID 7)]"
  using signAddVote_without_verifier [of "exState\<lparr>dkgVerifier := None\<rparr>" exEnv PrevoteType "[7]" "exHeader 7"]
    signAddVote_without_verifier [of "exState\<lparr>dkgVerifier := None\<rparr>" exEnv PrecommitType "[7]" "exHeader 7"]
  by (simp add: ex_defs cs_defs)

subsection \<open>Votes of another height\<close>

lemma word_pred_eq: "(a + 1 = (b::int64)) = (a = b - 1)"
  by (simp add: eq_diff_eq)

text \<open>
  C7.  A vote whose height is the current height minus one (in \<open>int64\<close>, as
  \<open>vote.Height+1 == cs.Height\<close> computes it) is answered with
  \<open>ErrVoteHeightMismatch\<close> and no change of state unless the step is \<open>NewHeight\<close> and
  the vote is a precommit; a vote of any other height but the current one is answered so
  too.  In \<open>NewHeight\<close> a precommit of the previous height is handed to
  \<open>LastCommit.AddVote\<close>, whose answer \<open>addVote\<close> returns.
\<close>

theorem addVote_height_mismatch:
  "(vote_Height vote = Height cs - 1
      \<and> \<not> (Step cs = RoundStepNewHeight \<and> vote_Type vote = PrecommitType)
     \<longrightarrow> addVote env vote peerID cs = Done ((False, Some ErrVoteHeightMismatch), cs))
   \<and> (vote_Height vote \<noteq> Height cs - 1 \<and> vote_Height vote \<noteq> Height cs
     \<longrightarrow> addVote env vote peerID cs = Done ((False, Some ErrVoteHeightMismatch), cs))
   \<and> (vote_Height vote = Height cs - 1
        \<and> Step cs = RoundStepNewHeight \<and> vote_Type vote = PrecommitType
        \<and> VoteSet_AddVote env (LastCommit cs) vote = ((False, err), lastCommit)
     \<longrightarrow> addVote env vote peerID cs = Done ((False, err), cs\<lparr>LastCommit := lastCommit\<rparr>))
   \<and> (vote_Height vote = Height cs - 1
        \<and> Step cs = RoundStepNewHeight \<and> vote_Type vote = PrecommitType
        \<and> VoteSet_AddVote env (LastCommit cs) vote = ((True, err), lastCommit)
        \<and> \<not> (SkipTimeoutCommit cs \<and> HasAll env lastCommit)
     \<longrightarrow> addVote env vote peerID cs
           = Done ((True, err),
               cs\<lparr>LastCommit := lastCommit,
                  effects := effects cs @ [PublishEventVote vote, FireEventVote vote]\<rparr>))"
  by (auto simp: addVote_def word_pred_eq emit_def)

theorem addVote_height_mismatch_witness:
  "addVote exEnv (exVote PrecommitType 4 [2] [9]) ''peer'' exState
     = Done ((False, Some ErrVoteHeightMismatch), exState)
   \<and> addVote exEnv (exVote PrevoteType 4 [2] [9]) ''peer'' (exState\<lparr>Step := RoundStepNewHeight\<rparr>)
     = Done ((False, Some ErrVoteHeightMismatch), exState\<lparr>Step := RoundStepNewHeight\<rparr>)
   \<and> addVote exEnv (exVote PrecommitType 9 [2] [9]) ''peer'' exState
     = Done ((False, Some ErrVoteHeightMismatch), exState)
   \<and> addVote exEnv (exVote PrecommitType 4 [2] [66]) ''peer'' (exState\<lparr>Step := RoundStepNewHeight\<rparr>)
     = Done ((False, Some (ErrVoteConflictingVotes
               \<lparr>VoteA = exVote PrecommitType 4 [2] [66], VoteB = exVote PrecommitType 4 [2] [66]\<rparr>)),
             exState\<lparr>Step := RoundStepNewHeight\<rparr>)
   \<and> addVote exEnv (exVote PrecommitType 4 [2] [9]) ''peer'' (exState\<lparr>Step := RoundStepNewHeight\<rparr>)
     = Done ((True, None),
         exState\<lparr>Step := RoundStepNewHeight,
                 effects := [PublishEventVote (exVote PrecommitType 4 [2] [9]),
                             FireEventVote (exVote PrecommitType 4 [2] [9])]\<rparr>)"
  using
    addVote_height_mismatch [where env = exEnv and peerID = "''peer''" and cs = exState
      and vote = "exVote PrecommitType 4 [2] [9]"]
    addVote_height_mismatch [where env = exEnv and peerID = "''peer''"
      and cs = "exState\<lparr>Step := RoundStepNewHeight\<rparr>"
      and vote = "exVote PrevoteType 4 [2] [9]"]
    addVote_height_mismatch [where env = exEnv and peerID = "''peer''" and cs = exState
      and vote = "exVote PrecommitType 9 [2] [9]"]
    addVote_height_mismatch [where env = exEnv and peerID = "''peer''"
      and cs = "exState\<lparr>Step := RoundStepNewHeight\<rparr>"
      and vote = "exVote PrecommitType 4 [2] [66]" and lastCommit = None
      and err = "Some (ErrVoteConflictingVotes
               \<lparr>VoteA = exVote PrecommitType 4 [2] [66], VoteB = exVote PrecommitType 4 [2] [66]\<rparr>)"]
    addVote_height_mismatch [where env = exEnv and peerID = "''peer''"
      and cs = "exState\<lparr>Step := RoundStepNewHeight\<rparr>"
      and vote = "exVote PrecommitType 4 [2] [9]" and lastCommit = None and err = None]
  by (simp add: ex_defs)

subsection \<open>Conflicting votes\<close>

text \<open>
  C8, as stated: every vote that \<open>addVote\<close> rejects with a conflicting-votes error
  has its evidence passed to the evidence pool.  A conflicting vote that carries the
  node's own address is returned with the error and nothing reaches the pool.
\<close>

theorem tryAddVote_own_conflict_not_reported:
  "addVote exEnv (exVote PrecommitType 5 [1] [66]) ''peer'' exState
     = Done ((False, Some (ErrVoteConflictingVotes (exConflict [1]))), exState)
   \<and> tryAddVote exEnv (exVote PrecommitType 5 [1] [66]) ''peer'' exState
     = Done ((False, Some (ErrVoteConflictingVotes (exConflict [1]))), exState)
   \<and> effects exState = []"
  by (simp add: tryAddVote_def addVote_def exConflict_def getPreviousBlock_def ex_defs)

text \<open>
  C8, amended.  When \<open>addVote\<close> rejects a vote with a conflicting-votes error and
  the node has a private validator, \<open>tryAddVote\<close> returns that error and passes the
  \<open>DuplicateVoteEvidence\<close> to the evidence pool if the vote's validator address is not
  the node's own; if it is the node's own, nothing is passed.
\<close>

theorem tryAddVote_conflicting_votes:
  assumes "addVote env vote peerID cs
             = Done ((added, Some (ErrVoteConflictingVotes evidence)), cs1)"
    and "privValidator cs1 = Some addr"
  shows "tryAddVote env vote peerID cs
           = Done ((added, Some (ErrVoteConflictingVotes evidence)),
               if ValidatorAddress vote = addr then cs1 else emit (AddEvidence evidence) cs1)"
  using assms by (simp add: tryAddVote_def)

theorem tryAddVote_conflicting_votes_witness:
  "addVote exEnv (exVote PrecommitType 5 [2] [66]) ''peer'' exState
     = Done ((False, Some (ErrVoteConflictingVotes (exConflict [2]))), exState)
   \<and> privValidator exState = Some [1]
   \<and> tryAddVote exEnv (exVote PrecommitType 5 [2] [66]) ''peer'' exState
     = Done ((False, Some (ErrVoteConflictingVotes (exConflict [2]))),
         exState\<lparr>effects := [AddEvidence (exConflict [2])]\<rparr>)"
proof -
  have a: "addVote exEnv (exVote PrecommitType 5 [2] [66]) ''peer'' exState
     = Done ((False, Some (ErrVoteConflictingVotes (exConflict [2]))), exState)"
    by (simp add: addVote_def exConflict_def getPreviousBlock_def ex_defs)
  have p: "privValidator exState = Some [1]"
    by (simp add: ex_defs)
  show ?thesis
    using tryAddVote_conflicting_votes [OF a p] a p
    by (simp add: ex_defs emit_def)
qed

subsection \<open>Commit and the recovery of the randomness\<close>

text \<open>
  C1, as stated: when \<open>Recover\<close> fails in \<open>enterCommit\<close> the node halts and does not
  go on to \<open>tryFinalizeCommit\<close>.  With a two-thirds precommit majority for block
  \<open>[8]\<close> and a verifier that fails to recover, \<open>enterCommit\<close> is the call of
  \<open>tryFinalizeCommit\<close> on the state with step \<open>Commit\<close>, and it returns without a
  panic.
\<close>

theorem enterCommit_continues_after_failed_recovery:
  "TwoThirdsMajority exEnv (Precommits exEnv (Votes (exCommitting (exBlockID 8))) 0)
     = Some (exBlockID 8)
   \<and> Recover exEnv False [1] (GetVotes exEnv (Some (exBlockID 8))) = Inl ''too few shares''
   \<and> enterCommit exEnv 5 0 (exCommitting (exBlockID 8))
     = tryFinalizeCommit exEnv 5
         ((exCommitting (exBlockID 8))
            \<lparr>Step := RoundStepCommit, CommitRound := 0, CommitTime := 100,
             effects := [NewStep]\<rparr>)
   \<and> enterCommit exEnv 5 0 (exCommitting (exBlockID 8))
     = Done ((exCommitting (exBlockID 8))
         \<lparr>Step := RoundStepCommit, CommitRound := 0, CommitTime := 100, effects := [NewStep]\<rparr>)"
  by (simp add: enterCommit_def enterCommit_body_def tryFinalizeCommit_def Let_def
      ex_defs cs_defs)

text \<open>
  C1, amended.  In \<open>enterCommit\<close>, past the guard and with a two-thirds precommit
  majority, the randomness is recovered from the previous block's random data and the
  precommits.  If \<open>Recover\<close> fails, the body panics, having at most moved the locked
  block to the proposal block, and the deferred function recovers that panic: no random
  data is stamped, the step becomes \<open>Commit\<close>, commit round and commit time are set,
  and \<open>tryFinalizeCommit\<close> is called.  From there \<open>enterCommit\<close> returns normally
  when the majority is for nil or the node does not hold the majority's block.  When it
  holds the block, \<open>finalizeCommit\<close> runs on the block without new random data, and a
  panic there is not recovered: with the other checks passed, random data that
  \<open>VerifyRandomData\<close> rejects end \<open>enterCommit\<close> with the panic
  \<open>Cannot finalizeCommit, ProposalBlock has invalid random value\<close>.  If \<open>Recover\<close>
  succeeds, the random data is written into the proposal block, if there is one, the
  proposal is reset when the block is not the majority's and the parts header differs,
  and \<open>tryFinalizeCommit\<close> is called after the same update of the step.
\<close>

theorem enterCommit_recovers_panic:
  assumes "Height cs = height" and "stepNumber (Step cs) < stepNumber RoundStepCommit"
    and "TwoThirdsMajority env (Precommits env (Votes cs) commitRound) = Some blockID"
    and "cs1 = (if HashesTo env (blockAt cs (LockedBlock cs)) (Hash blockID)
                then cs\<lparr>ProposalBlock := LockedBlock cs, ProposalBlockParts := LockedBlockParts cs\<rparr>
                else cs)"
    and "dkgVerifier cs = Some verifier" and "getPreviousBlock env cs = Some prev"
    and "recovered = Recover env verifier (RandomData prev)
                       (GetVotes env (Precommits env (Votes cs) commitRound))"
    and "commitStep = (\<lambda>s. newStep ((updateRoundStep (Round cs) RoundStepCommit s)
                              \<lparr>CommitRound := commitRound, CommitTime := now env\<rparr>))"
    and "held = (\<lambda>s. Hash blockID \<noteq> []
                      \<and> HashesTo env (blockAt s (ProposalBlock s)) (Hash blockID))"
    and "stamp = (\<lambda>randomData. case ProposalBlock cs1 of
                      None \<Rightarrow> cs1
                    | Some r \<Rightarrow>
                        cs1\<lparr>blocks :=
                          (blocks cs1)[r := SetRandomData env randomData (blocks cs1 ! r)]\<rparr>)"
    and "setUp = (\<lambda>s. if \<not> HashesTo env (blockAt s (ProposalBlock s)) (Hash blockID)
                          \<and> \<not> HasHeader env (ProposalBlockParts s) (PartsHeader blockID)
                       then emit FireEventValidBlock
                              (emit PublishEventValidBlock
                                (s\<lparr>ProposalBlock := None,
                                   ProposalBlockParts :=
                                     Some (NewPartSetFromHeader env (PartsHeader blockID))\<rparr>))
                       else s)"
  shows "(\<forall>err. recovered = Inl err \<longrightarrow>
            enterCommit_body env commitRound cs
              = Panicked (''Failed to recover random data from votes: '' @ err) cs1
          \<and> blocks (commitStep cs1) = blocks cs
          \<and> enterCommit env height commitRound cs = tryFinalizeCommit env height (commitStep cs1)
          \<and> (\<not> held cs1 \<longrightarrow> enterCommit env height commitRound cs = Done (commitStep cs1))
          \<and> (held cs1 \<longrightarrow>
               enterCommit env height commitRound cs = finalizeCommit env height (commitStep cs1))
          \<and> (\<forall>block e.
                held cs1 \<and> HasHeader env (ProposalBlockParts cs1) (PartsHeader blockID)
                  \<and> blockAt cs1 (ProposalBlock cs1) = Some block
                  \<and> ValidateBlock env (Some block) = None
                  \<and> VerifyRandomData env verifier (RandomData prev) (RandomData block) = Some e
                \<longrightarrow> enterCommit env height commitRound cs
                      = Panicked
                          (''Cannot finalizeCommit, ProposalBlock has invalid random value: '' @ e)
                          (commitStep cs1)))
         \<and> (\<forall>randomData. recovered = Inr randomData \<longrightarrow>
              enterCommit_body env commitRound cs = Done (setUp (stamp randomData))
            \<and> enterCommit env height commitRound cs
                = tryFinalizeCommit env height (commitStep (setUp (stamp randomData))))"
proof -
  have v: "dkgVerifier cs1 = Some verifier"
    using assms(4,5) by simp
  have p: "getPreviousBlock env cs1 = Some prev"
    using assms(4,6) by (simp add: getPreviousBlock_def split: if_splits)
  have r: "Round cs1 = Round cs" and h: "Height cs1 = height" and b: "blocks cs1 = blocks cs"
    and vs: "Votes cs1 = Votes cs"
    using assms(1,4) by simp_all
  have guard: "\<not> (Height cs \<noteq> height \<or> stepNumber RoundStepCommit \<le> stepNumber (Step cs))"
    using assms(1,2) by simp
  have p': "getPreviousBlock env
             (cs\<lparr>ProposalBlock := LockedBlock cs, ProposalBlockParts := LockedBlockParts cs\<rparr>)
           = Some prev"
    using assms(6) by (simp add: getPreviousBlock_def split: if_splits)
  have fail: "enterCommit_body env commitRound cs
              = Panicked (''Failed to recover random data from votes: '' @ err) cs1"
    if "recovered = Inl err" for err
    using that assms(3,4,5,6,7) p' by (simp add: enterCommit_body_def Let_def)
  have ok: "enterCommit_body env commitRound cs = Done (setUp (stamp randomData))"
    if "recovered = Inr randomData" for randomData
  proof (cases "HashesTo env (blockAt cs (LockedBlock cs)) (Hash blockID)")
    case True
    then have c: "cs1 = cs\<lparr>ProposalBlock := LockedBlock cs,
                            ProposalBlockParts := LockedBlockParts cs\<rparr>"
      using assms(4) by simp
    show ?thesis
      using that True assms(3,5,7) p'
      by (simp add: enterCommit_body_def Let_def assms(10,11) c split: option.split)
  next
    case False
    then have c: "cs1 = cs"
      using assms(4) by simp
    show ?thesis
      using that False assms(3,5,6,7)
      by (simp add: enterCommit_body_def Let_def assms(10,11) c split: option.split)
  qed
  have rs: "Round (setUp s) = Round s" for s
    by (simp add: assms(11) emit_def)
  have rst: "Round (stamp d) = Round cs" for d
    using r by (simp add: assms(10) split: option.splits)
  have e1: "enterCommit env height commitRound cs = tryFinalizeCommit env height (commitStep cs1)"
    if "recovered = Inl err" for err
    using fail [OF that] guard r by (simp add: enterCommit_def assms(8))
  have e2: "enterCommit env height commitRound cs
              = tryFinalizeCommit env height (commitStep (setUp (stamp randomData)))"
    if "recovered = Inr randomData" for randomData
    using ok [OF that] guard rs rst by (simp add: enterCommit_def assms(8))
  have cf: "Height (commitStep s) = Height s" "Votes (commitStep s) = Votes s"
    "CommitRound (commitStep s) = commitRound" "blocks (commitStep s) = blocks s"
    "ProposalBlock (commitStep s) = ProposalBlock s"
    "ProposalBlockParts (commitStep s) = ProposalBlockParts s"
    "Step (commitStep s) = RoundStepCommit" "dkgVerifier (commitStep s) = dkgVerifier s"
    "blockAt (commitStep s) x = blockAt s x"
    "getPreviousBlock env (commitStep s) = getPreviousBlock env s" for s x
    by (simp_all add: assms(8) newStep_def updateRoundStep_def emit_def blockAt_def
        getPreviousBlock_def split: option.split)
  have t: "tryFinalizeCommit env height (commitStep cs1)
           = (if held cs1 then finalizeCommit env height (commitStep cs1)
              else Done (commitStep cs1))"
    using assms(3) h vs by (simp add: tryFinalizeCommit_def cf assms(9))
  have f: "finalizeCommit env height (commitStep cs1)
           = Panicked (''Cannot finalizeCommit, ProposalBlock has invalid random value: '' @ e)
               (commitStep cs1)"
    if "held cs1" "HasHeader env (ProposalBlockParts cs1) (PartsHeader blockID)"
      "blockAt cs1 (ProposalBlock cs1) = Some block" "ValidateBlock env (Some block) = None"
      "VerifyRandomData env verifier (RandomData prev) (RandomData block) = Some e"
    for block e
    using that assms(3) h vs v p by (simp add: finalizeCommit_def cf assms(9))
  show ?thesis
    using fail ok e1 e2 t f b by (simp add: cf)
qed

theorem enterCommit_recovers_panic_witness:
  "enterCommit_body exEnv 0
       ((exLocked (exCommitting (exBlockID 7)))\<lparr>ProposalBlock := None, ProposalBlockParts := None\<rparr>)
     = Panicked ''Failed to recover random data from votes: too few shares''
         (exLocked (exCommitting (exBlockID 7)))
   \<and> enterCommit exEnv 5 0
       ((exLocked (exCommitting (exBlockID 7)))\<lparr>ProposalBlock := None, ProposalBlockParts := None\<rparr>)
     = Panicked ''Cannot finalizeCommit, ProposalBlock has invalid random value: not a signature''
         ((exLocked (exCommitting (exBlockID 7)))
            \<lparr>Step := RoundStepCommit, CommitRound := 0, CommitTime := 100,
             effects := [NewStep]\<rparr>)
   \<and> blocks (exLocked (exCommitting (exBlockID 7))) = [\<lparr>RandomData = [], block_content = [7]\<rparr>]
   \<and> enterCommit exEnv 5 0 (exCommitting nilBlockID)
     = Done ((exCommitting nilBlockID)
         \<lparr>Step := RoundStepCommit, CommitRound := 0, CommitTime := 100, effects := [NewStep]\<rparr>)
   \<and> enterCommit exEnv 5 0 ((exCommitting (exBlockID 7))\<lparr>dkgVerifier := Some True\<rparr>)
     = commitBlock exEnv 5
         ((exCommitting (exBlockID 7))
            \<lparr>dkgVerifier := Some True, Step := RoundStepCommit, CommitRound := 0,
             CommitTime := 100, effects := [NewStep],
             blocks := [\<lparr>RandomData = [1, 2], block_content = [7]\<rparr>]\<rparr>)"
proof -
  note held =
    enterCommit_recovers_panic [where env = exEnv and height = 5 and commitRound = 0
      and cs = "(exLocked (exCommitting (exBlockID 7)))
                  \<lparr>ProposalBlock := None, ProposalBlockParts := None\<rparr>"
      and blockID = "exBlockID 7" and verifier = False
      and prev = "\<lparr>RandomData = [1], block_content = []\<rparr>",
      OF _ _ _ refl _ _ refl refl refl refl refl]
  note nil =
    enterCommit_recovers_panic [where env = exEnv and height = 5 and commitRound = 0
      and cs = "exCommitting nilBlockID"
      and blockID = nilBlockID and verifier = False
      and prev = "\<lparr>RandomData = [1], block_content = []\<rparr>",
      OF _ _ _ refl _ _ refl refl refl refl refl]
  note stamped =
    enterCommit_recovers_panic [where env = exEnv and height = 5 and commitRound = 0
      and cs = "(exCommitting (exBlockID 7))\<lparr>dkgVerifier := Some True\<rparr>"
      and blockID = "exBlockID 7" and verifier = True
      and prev = "\<lparr>RandomData = [1], block_content = []\<rparr>",
      OF _ _ _ refl _ _ refl refl refl refl refl]
  have a: "enterCommit_body exEnv 0
       ((exLocked (exCommitting (exBlockID 7)))\<lparr>ProposalBlock := None, ProposalBlockParts := None\<rparr>)
     = Panicked ''Failed to recover random data from votes: too few shares''
         (exLocked (exCommitting (exBlockID 7)))
   \<and> enterCommit exEnv 5 0
       ((exLocked (exCommitting (exBlockID 7)))\<lparr>ProposalBlock := None, ProposalBlockParts := None\<rparr>)
     = Panicked ''Cannot finalizeCommit, ProposalBlock has invalid random value: not a signature''
         ((exLocked (exCommitting (exBlockID 7)))
            \<lparr>Step := RoundStepCommit, CommitRound := 0, CommitTime := 100,
             effects := [NewStep]\<rparr>)"
    using held by (simp add: tryFinalizeCommit_def finalizeCommit_def Let_def ex_defs cs_defs)
  have b: "enterCommit exEnv 5 0 (exCommitting nilBlockID)
     = Done ((exCommitting nilBlockID)
         \<lparr>Step := RoundStepCommit, CommitRound := 0, CommitTime := 100, effects := [NewStep]\<rparr>)"
    using nil by (simp add: tryFinalizeCommit_def ex_defs cs_defs)
  have c: "enterCommit exEnv 5 0 ((exCommitting (exBlockID 7))\<lparr>dkgVerifier := Some True\<rparr>)
     = commitBlock exEnv 5
         ((exCommitting (exBlockID 7))
            \<lparr>dkgVerifier := Some True, Step := RoundStepCommit, CommitRound := 0,
             CommitTime := 100, effects := [NewStep],
             blocks := [\<lparr>RandomData = [1, 2], block_content = [7]\<rparr>]\<rparr>)"
    using stamped by (simp add: tryFinalizeCommit_def finalizeCommit_def Let_def ex_defs cs_defs)
  have d: "blocks (exLocked (exCommitting (exBlockID 7)))
             = [\<lparr>RandomData = [], block_content = [7]\<rparr>]"
    by (simp add: ex_defs)
  show ?thesis
    using a b c d by simp
qed

subsection \<open>The precommit step\<close>

text \<open>
  C3, as stated: past the guard, a two-thirds prevote majority for the proposal block
  makes the node lock and precommit it, and a majority for a block it does not hold
  makes it reset the proposal parts.  When the proposal block is invalid the call
  panics and signs nothing; when the proposal parts already carry the majority's parts
  header they are kept, with the part received, where a reset part set has none.
\<close>

theorem enterPrecommit_panics_and_keeps_parts:
  "HashesTo exEnv (blockAt exInvalid (ProposalBlock exInvalid)) (Hash (exBlockID 66))
   \<and> outcomeOf (enterPrecommit exEnv 5 0 exInvalid)
       = (False, [], - 1, None, Some \<lparr>ps_header = exHeader 7, ps_count = 2\<rparr>)
   \<and> outcomeOf (enterPrecommit exEnv 5 0 exPartial)
       = (True, [(PrecommitType, nilBlockID)], - 1, None,
          Some \<lparr>ps_header = exHeader 8, ps_count = 1\<rparr>)
   \<and> NewPartSetFromHeader exEnv (exHeader 8) = \<lparr>ps_header = exHeader 8, ps_count = 0\<rparr>"
  by (simp add: enterPrecommit_def enterPrecommit_body_def Let_def exInvalid_def exPartial_def
      ex_defs cs_defs)

text \<open>
  C3, amended.  Past the guard, with \<open>precommit\<close> the call
  \<open>signAddVote(PrecommitType, hash, header)\<close> and the deferred step change after it:
  no majority, precommit nil; a majority and a POL round below \<open>r\<close>, panic; a majority
  for nil, unlock if locked and precommit nil; for the locked block, set
  \<open>LockedRound\<close> to \<open>r\<close> and precommit the block; for the proposal block, validate it,
  panic if it is invalid, else lock it at \<open>r\<close> and precommit it; for a block the node
  does not hold, clear the lock, set \<open>ProposalBlock\<close> to nil and the parts to a new
  part set of the majority's header unless the parts carry that header already, and
  precommit nil.
\<close>

theorem enterPrecommit_case_analysis:
  assumes "Height cs = height" and "Round cs \<le> round"
    and "Round cs = round \<longrightarrow> stepNumber (Step cs) < stepNumber RoundStepPrecommit"
    and "finish = deferring (\<lambda>s. newStep (updateRoundStep round RoundStepPrecommit s))"
    and "polka = emit PublishEventPolka cs"
    and "unlocked = polka\<lparr>LockedRound := - 1, LockedBlock := None, LockedBlockParts := None\<rparr>"
    and "majority = TwoThirdsMajority env (Prevotes env (Votes cs) round)"
  shows
    "(majority = None \<longrightarrow>
        enterPrecommit env height round cs = finish (precommit env [] emptyPartSetHeader cs))
     \<and> (\<forall>blockID. majority = Some blockID \<and> fst (POLInfo env (Votes cs)) < round \<longrightarrow>
          enterPrecommit env height round cs
            = finish (Panicked ''This POLRound should be the round'' polka))
     \<and> (\<forall>blockID. majority = Some blockID \<and> round \<le> fst (POLInfo env (Votes cs)) \<longrightarrow>
          (Hash blockID = [] \<longrightarrow>
             enterPrecommit env height round cs
               = finish (precommit env [] emptyPartSetHeader
                   (if LockedBlock cs = None then polka else emit PublishEventUnlock unlocked)))
        \<and> (Hash blockID \<noteq> [] \<and> HashesTo env (blockAt cs (LockedBlock cs)) (Hash blockID) \<longrightarrow>
             enterPrecommit env height round cs
               = finish (precommit env (Hash blockID) (PartsHeader blockID)
                   (emit PublishEventRelock (polka\<lparr>LockedRound := round\<rparr>))))
        \<and> (Hash blockID \<noteq> [] \<and> \<not> HashesTo env (blockAt cs (LockedBlock cs)) (Hash blockID)
              \<and> HashesTo env (blockAt cs (ProposalBlock cs)) (Hash blockID) \<longrightarrow>
             enterPrecommit env height round cs
               = finish
                   (case ValidateBlock env (blockAt cs (ProposalBlock cs)) of
                      Some err \<Rightarrow>
                        Panicked (''enterPrecommit: +2/3 prevoted for an invalid block: '' @ err)
                          polka
                    | None \<Rightarrow>
                        precommit env (Hash blockID) (PartsHeader blockID)
                          (emit PublishEventLock
                             (polka\<lparr>LockedRound := round, LockedBlock := ProposalBlock cs,
                                    LockedBlockParts := ProposalBlockParts cs\<rparr>))))
        \<and> (Hash blockID \<noteq> [] \<and> \<not> HashesTo env (blockAt cs (LockedBlock cs)) (Hash blockID)
              \<and> \<not> HashesTo env (blockAt cs (ProposalBlock cs)) (Hash blockID) \<longrightarrow>
             enterPrecommit env height round cs
               = finish (precommit env [] emptyPartSetHeader
                   (emit PublishEventUnlock
                      (if HasHeader env (ProposalBlockParts cs) (PartsHeader blockID)
                       then unlocked
                       else unlocked\<lparr>ProposalBlock := None,
                              ProposalBlockParts :=
                                Some (NewPartSetFromHeader env (PartsHeader blockID))\<rparr>)))))"
proof -
  have guard: "\<not> (Height cs \<noteq> height \<or> round < Round cs
         \<or> (Round cs = round \<and> stepNumber RoundStepPrecommit \<le> stepNumber (Step cs)))"
    using assms(1,2,3) by auto
  have run: "enterPrecommit env height round cs = finish (enterPrecommit_body env round cs)"
    unfolding enterPrecommit_def assms(4) using guard by auto
  have b: "blockAt polka p = blockAt cs p" for p
    by (cases p) (simp_all add: assms(5) blockAt_def emit_def)
  have f: "LockedBlock polka = LockedBlock cs" "ProposalBlock polka = ProposalBlock cs"
    "ProposalBlockParts polka = ProposalBlockParts cs" "Votes polka = Votes cs"
    by (simp_all add: assms(5) emit_def)
  show ?thesis
    unfolding run enterPrecommit_body_def Let_def assms(5)[symmetric] assms(7)[symmetric]
    by (auto simp: b f assms(6) emit_def split: option.splits)
qed

theorem enterPrecommit_case_analysis_witness:
  "outcomeOf (enterPrecommit exEnv 5 0 (exPolka None))
     = (True, [(PrecommitType, nilBlockID)], - 1, None,
        Some \<lparr>ps_header = exHeader 7, ps_count = 2\<rparr>)
   \<and> outcomeOf (enterPrecommit exEnv 5 0 (exLocked (exPolka (Some nilBlockID))))
     = (True, [(PrecommitType, nilBlockID)], - 1, None,
        Some \<lparr>ps_header = exHeader 7, ps_count = 2\<rparr>)
   \<and> outcomeOf (enterPrecommit exEnv 5 1 (exLocked (exPolka (Some (exBlockID 7)))\<lparr>Votes := \<lparr>ex_prevotes = Some (exBlockID 7), ex_precommits = None, ex_pol = 1\<rparr>\<rparr>))
     = (True, [(PrecommitType, exBlockID 7)], 1, Some 0,
        Some \<lparr>ps_header = exHeader 7, ps_count = 2\<rparr>)
   \<and> outcomeOf (enterPrecommit exEnv 5 0 (exPolka (Some (exBlockID 7))))
     = (True, [(PrecommitType, exBlockID 7)], 0, Some 0,
        Some \<lparr>ps_header = exHeader 7, ps_count = 2\<rparr>)
   \<and> outcomeOf (enterPrecommit exEnv 5 0 (exLocked (exPolka (Some (exBlockID 8)))))
     = (True, [(PrecommitType, nilBlockID)], - 1, None,
        Some \<lparr>ps_header = exHeader 8, ps_count = 0\<rparr>)
   \<and> outcomeOf (enterPrecommit exEnv 5 1 (exPolka (Some (exBlockID 7))))
     = (False, [], - 1, None, Some \<lparr>ps_header = exHeader 7, ps_count = 2\<rparr>)
   \<and> outcomeOf (enterPrecommit exEnv 5 0 exInvalid)
     = (False, [], - 1, None, Some \<lparr>ps_header = exHeader 7, ps_count = 2\<rparr>)
   \<and> outcomeOf (enterPrecommit exEnv 5 0 exPartial)
     = (True, [(PrecommitType, nilBlockID)], - 1, None,
        Some \<lparr>ps_header = exHeader 8, ps_count = 1\<rparr>)"
  using
    enterPrecommit_case_analysis [where env = exEnv and height = 5 and round = 0
      and cs = "exPolka None", OF _ _ _ refl refl refl refl]
    enterPrecommit_case_analysis [where env = exEnv and height = 5 and round = 0
      and cs = "exLocked (exPolka (Some nilBlockID))", OF _ _ _ refl refl refl refl]
    enterPrecommit_case_analysis [where env = exEnv and height = 5 and round = 1
      and cs = "exLocked (exPolka (Some (exBlockID 7)))\<lparr>Votes := \<lparr>ex_prevotes = Some (exBlockID 7), ex_precommits = None, ex_pol = 1\<rparr>\<rparr>", OF _ _ _ refl refl refl refl]
    enterPrecommit_case_analysis [where env = exEnv and height = 5 and round = 0
      and cs = "exPolka (Some (exBlockID 7))", OF _ _ _ refl refl refl refl]
    enterPrecommit_case_analysis [where env = exEnv and height = 5 and round = 0
      and cs = "exLocked (exPolka (Some (exBlockID 8)))", OF _ _ _ refl refl refl refl]
    enterPrecommit_case_analysis [where env = exEnv and height = 5 and round = 1
      and cs = "exPolka (Some (exBlockID 7))", OF _ _ _ refl refl refl refl]
    enterPrecommit_case_analysis [where env = exEnv and height = 5 and round = 0
      and cs = exInvalid, OF _ _ _ refl refl refl refl]
    enterPrecommit_case_analysis [where env = exEnv and height = 5 and round = 0
      and cs = exPartial, OF _ _ _ refl refl refl refl]
  by (simp add: enterPrecommit_def enterPrecommit_body_def Let_def exInvalid_def exPartial_def
      ex_defs cs_defs)

end
